theory Spec2Isabelle
  imports Main "HOL-Library.AList"
begin

section \<open>Splitting a SONATA population: a model of \<open>split_population.py\<close>\<close>

text \<open>
  The definitions below follow \<open>brainbuilder/utils/sonata/split_population.py\<close>
  function by function.  Python names lose their leading underscore, which an
  Isabelle identifier cannot carry.  Exceptions are values: a function that can
  raise returns \<open>error + 'a\<close>, with \<open>Inl\<close> for the exception.
\<close>

datatype error =
    ValueError | KeyError | AssertionError | RuntimeError | OSError
  | IndexError | TypeError | NameExists | SonataError

subsection \<open>Python and numpy primitives\<close>

text \<open>\<open>range(start, stop, step)\<close>: a zero step raises, a positive step counts up to
  \<open>stop\<close>, a negative one counts down to it.\<close>

function py_range_up :: "int \<Rightarrow> int \<Rightarrow> int \<Rightarrow> int list" where
  "py_range_up start stop step =
     (if 0 < step \<and> start < stop then start # py_range_up (start + step) stop step else [])"
  by pat_completeness auto
termination
  by (relation "measure (\<lambda>(start, stop, step). nat (stop - start))") auto

function py_range_down :: "int \<Rightarrow> int \<Rightarrow> int \<Rightarrow> int list" where
  "py_range_down start stop step =
     (if step < 0 \<and> stop < start then start # py_range_down (start + step) stop step else [])"
  by pat_completeness auto
termination
  by (relation "measure (\<lambda>(start, stop, step). nat (start - stop))") auto

declare py_range_up.simps [simp del] py_range_down.simps [simp del]

definition py_range :: "int \<Rightarrow> int \<Rightarrow> int \<Rightarrow> error + int list" where
  "py_range start stop step =
     (if step = 0 then Inl ValueError
      else if 0 < step then Inr (py_range_up start stop step)
      else Inr (py_range_down start stop step))"

text \<open>\<open>xs[start:stop]\<close>: a negative bound counts from the end, and both bounds are
  clipped to the length.\<close>

definition slice_bound :: "nat \<Rightarrow> int \<Rightarrow> nat" where
  "slice_bound n i = (if i < 0 then nat (max 0 (int n + i)) else min n (nat i))"

definition py_slice :: "'a list \<Rightarrow> int \<times> int \<Rightarrow> 'a list" where
  "py_slice xs sl =
     (let s = slice_bound (length xs) (fst sl); e = slice_bound (length xs) (snd sl)
      in take (e - s) (drop s xs))"

text \<open>\<open>np.isin(elements, test_elements, invert=invert)\<close> on a 1-D array.\<close>

definition np_isin :: "int list \<Rightarrow> int list \<Rightarrow> bool \<Rightarrow> bool list" where
  "np_isin elements test_elements invert =
     map (\<lambda>x. (x \<in> set test_elements) \<noteq> invert) elements"

text \<open>\<open>np.concatenate\<close> refuses an empty sequence of arrays.\<close>

definition np_concatenate :: "'a list list \<Rightarrow> error + 'a list" where
  "np_concatenate arrays = (if arrays = [] then Inl ValueError else Inr (concat arrays))"

text \<open>\<open>int(a / 500)\<close> for integers: true division, then truncation towards zero (the
  quotient is exact as long as the float division is, that is for every chunk size in
  use).\<close>

definition int_truediv_500 :: "int \<Rightarrow> int" where
  "int_truediv_500 a = (if 0 \<le> a then a div 500 else - ((- a) div 500))"

subsection \<open>The chunk scanner\<close>

text \<open>\<open>_create_chunked_slices(length, chunk_size)\<close>: the slices
  \<open>slice(start, start + chunk_size)\<close> for \<open>start\<close> in \<open>range(0, length, chunk_size)\<close>.\<close>

definition create_chunked_slices :: "nat \<Rightarrow> int \<Rightarrow> error + (int \<times> int) list" where
  "create_chunked_slices len chunk_size =
     (case py_range 0 (int len) chunk_size of
        Inl e \<Rightarrow> Inl e
      | Inr starts \<Rightarrow> Inr (map (\<lambda>start. (start, start + chunk_size)) starts))"

definition isin_worker :: "int list \<Rightarrow> int list \<Rightarrow> int \<times> int \<Rightarrow> bool \<Rightarrow> bool list" where
  "isin_worker elements test_elements sl invert =
     np_isin (py_slice elements sl) test_elements invert"

text \<open>\<open>_isin\<close>.  The first argument is what \<open>_h5_get_read_chunk_size()\<close> returns, the value
  of the environment variable \<open>H5_READ_CHUNKSIZE\<close> or its default.  The parallel map
  returns the workers' results in the order of the slices.\<close>

definition isin :: "int \<Rightarrow> int list \<Rightarrow> int list \<Rightarrow> bool \<Rightarrow> error + bool list" where
  "isin h5_chunksize elements test_elements invert =
     (if int (length elements) < h5_chunksize then Inr (np_isin elements test_elements invert)
      else
        let chunk_size = max 500 (int_truediv_500 h5_chunksize) in
        case create_chunked_slices (length elements) chunk_size of
          Inl e \<Rightarrow> Inl e
        | Inr slices \<Rightarrow>
            np_concatenate (map (\<lambda>sl. isin_worker elements test_elements sl invert) slices))"

subsection \<open>Names of populations and files\<close>

text \<open>\<open>_get_population_name(src, dst, synapse_type='chemical')\<close>.\<close>

definition get_population_name_typed :: "string \<Rightarrow> string \<Rightarrow> string \<Rightarrow> string" where
  "get_population_name_typed src dst synapse_type =
     (if src = dst then src else src @ ''__'' @ dst @ ''__'' @ synapse_type)"

definition get_population_name :: "string \<Rightarrow> string \<Rightarrow> string" where
  "get_population_name src dst = get_population_name_typed src dst ''chemical''"

definition get_edge_file_name :: "string \<Rightarrow> string" where
  "get_edge_file_name new_pop_name = ''edges_'' @ new_pop_name @ ''.h5''"

subsection \<open>Data frames and id mappings\<close>

text \<open>A pandas data frame is the list of its rows, each with its index label.  An id
  mapping is a data frame whose index holds the old ids and whose only column is
  \<open>new_id\<close>.  A Python dict is an association list in insertion order.\<close>

type_synonym 'r dataframe = "(int \<times> 'r) list"
type_synonym id_mapping = "int dataframe"

definition df_index :: "'r dataframe \<Rightarrow> int list" where
  "df_index df = map fst df"

definition new_id :: "id_mapping \<Rightarrow> int list" where
  "new_id df = map snd df"

text \<open>\<open>np.arange(n)\<close>.\<close>

definition np_arange :: "nat \<Rightarrow> int list" where
  "np_arange n = map int [0..<n]"

text \<open>\<open>_get_node_id_mapping(split_nodes)\<close>: the frame
  \<open>pd.DataFrame({"new_id": np.arange(len(df))}, index=df.index)\<close> built for one table, and
  the dict comprehension over the items of \<open>split_nodes\<close>.\<close>

definition node_id_frame :: "'r dataframe \<Rightarrow> id_mapping" where
  "node_id_frame df = zip (df_index df) (np_arange (length df))"

definition get_node_id_mapping :: "(string \<times> 'r dataframe) list \<Rightarrow> (string \<times> id_mapping) list" where
  "get_node_id_mapping split_nodes =
     map (\<lambda>(new_population, df). (new_population, node_id_frame df)) split_nodes"

subsection \<open>More numpy and pandas primitives\<close>

text \<open>A \<open>for\<close> loop whose body may raise: the loop stops at the first exception.\<close>

fun for_loop :: "('s \<Rightarrow> 'a \<Rightarrow> error + 's) \<Rightarrow> 's \<Rightarrow> 'a list \<Rightarrow> error + 's" where
  "for_loop body s [] = Inr s"
| "for_loop body s (x # xs) =
     (case body s x of Inl e \<Rightarrow> Inl e | Inr s' \<Rightarrow> for_loop body s' xs)"

text \<open>\<open>a & b\<close> on 1-D boolean arrays, with numpy's broadcasting of a length-one array.\<close>

definition np_and :: "bool list \<Rightarrow> bool list \<Rightarrow> error + bool list" where
  "np_and a b =
     (if length a = length b then Inr (map (\<lambda>(x, y). x \<and> y) (zip a b))
      else if length a = 1 then Inr (map (\<lambda>y. hd a \<and> y) b)
      else if length b = 1 then Inr (map (\<lambda>x. x \<and> hd b) a)
      else Inl ValueError)"

text \<open>\<open>xs[bmask]\<close> with a boolean mask, which must be as long as the array.\<close>

definition np_mask :: "'a list \<Rightarrow> bool list \<Rightarrow> error + 'a list" where
  "np_mask xs bmask =
     (if length xs = length bmask then Inr (map fst (filter snd (zip xs bmask)))
      else Inl IndexError)"

definition np_any :: "bool list \<Rightarrow> bool" where
  "np_any bmask = (True \<in> set bmask)"


text \<open>\<open>int(ret.new_id.max())\<close>: the maximum of an empty column is NaN, which \<open>int\<close>
  refuses.\<close>

definition max_new_id :: "id_mapping \<Rightarrow> error + int" where
  "max_new_id ret = (if ret = [] then Inl ValueError else Inr (Max (set (new_id ret))))"


subsection \<open>External ids of a subcircuit\<close>

text \<open>\<open>_get_subcircuit_external_ids\<close>.  \<open>external_ids_extend\<close> is the part of the loop
  body that updates \<open>ret\<close> from the array \<open>needed\<close>; \<open>external_ids_chunk\<close> is the loop body
  for one slice.  Their first argument is the configured read chunk size, which both the
  loop and \<open>_isin\<close> read from the environment.\<close>

definition external_ids_extend :: "int \<Rightarrow> id_mapping option \<Rightarrow> int list \<Rightarrow> error + id_mapping option" where
  "external_ids_extend h5_chunksize ret needed =
     (case ret of
        None \<Rightarrow> Inr (Some (zip needed (np_arange (length needed))))
      | Some r \<Rightarrow>
          (case isin h5_chunksize needed (df_index r) True of
             Inl e \<Rightarrow> Inl e
           | Inr mm \<Rightarrow>
               if np_any mm then
                 (case np_mask needed mm of
                    Inl e \<Rightarrow> Inl e
                  | Inr needed' \<Rightarrow>
                      (case max_new_id r of
                         Inl e \<Rightarrow> Inl e
                       | Inr mx \<Rightarrow>
                           let start_id = mx + 1;
                               new = zip needed' (map (\<lambda>k. start_id + k) (np_arange (length needed')))
                           in Inr (Some (r @ new))))
               else Inr (Some r)))"



subsection \<open>Notions used in the proofs\<close>



subsection \<open>Node sets\<close>

text \<open>A node-sets file is JSON.  Objects keep their keys in order, as Python dicts do.\<close>

datatype json =
    JNull | JBool bool | JInt int | JStr string
  | JList "json list" | JObj "(string \<times> json) list"

text \<open>\<open>mapping.index.intersection(node_id)\<close>, where \<open>node_id\<close> is the value of
  \<open>rule['node_id']\<close>: the old ids of the index that the value holds.  For a list these
  are the old ids that are elements of the list, and an element that is not an integer
  is equal to no old id; of an object pandas takes the keys, which are strings and equal
  to no old id; a value that is not list-like (null, a boolean, a number, a string) is
  refused.\<close>

fun index_intersection :: "int list \<Rightarrow> json \<Rightarrow> error + int list" where
  "index_intersection idx (JList xs) = Inr (filter (\<lambda>old. JInt old \<in> set xs) idx)"
| "index_intersection idx (JObj items) = Inr []"
| "index_intersection idx _ = Inl TypeError"

text \<open>A JSON value used as the key of a lookup in a dict whose keys are population names:
  a list or an object cannot be hashed, a string is the name it spells, and any other
  value is equal to no name.\<close>

fun population_key :: "json \<Rightarrow> error + string option" where
  "population_key (JStr s) = Inr (Some s)"
| "population_key (JList _) = Inl TypeError"
| "population_key (JObj _) = Inl TypeError"
| "population_key _ = Inr None"

text \<open>\<open>mapping.loc[common].new_id.sort_values().to_list()\<close> for the old ids \<open>common\<close>
  that the intersection has found, on a mapping whose old ids are unique: the new ids of
  the rows with these old ids, in ascending order.\<close>

definition remap_node_ids :: "id_mapping \<Rightarrow> int list \<Rightarrow> int list" where
  "remap_node_ids mapping common = sort (new_id (filter (\<lambda>row. fst row \<in> set common) mapping))"

definition no_population_warning :: "string \<Rightarrow> string" where
  "no_population_warning name = ''No population key in nodeset '' @ name @ '', ignoring''"

text \<open>The body of the loop of \<open>_update_node_sets\<close> for one item: the value stored in
  \<open>ret[name]\<close>, or \<open>None\<close> where the body runs \<open>continue\<close>, and the warnings it logs.\<close>

definition update_rule ::
  "(string \<times> id_mapping) list \<Rightarrow> string \<Rightarrow> json \<Rightarrow> error + (json option \<times> string list)" where
  "update_rule id_mapping name rule =
     (case rule of
        JObj items \<Rightarrow>
          (case map_of items ''node_id'' of
             None \<Rightarrow> Inr (Some rule, [])
           | Some node_id \<Rightarrow>
               (case map_of items ''population'' of
                  None \<Rightarrow> Inr (None, [no_population_warning name])
                | Some population \<Rightarrow>
                    (case population_key population of
                       Inl e \<Rightarrow> Inl e
                     | Inr None \<Rightarrow> Inr (None, [])
                     | Inr (Some p) \<Rightarrow>
                         (case map_of id_mapping p of
                            None \<Rightarrow> Inr (None, [])
                          | Some mapping \<Rightarrow>
                              (case index_intersection (df_index mapping) node_id of
                                 Inl e \<Rightarrow> Inl e
                               | Inr common \<Rightarrow>
                                   Inr (Some (JObj (AList.update ''node_id''
                                          (JList (map JInt (remap_node_ids mapping common)))
                                          items)),
                                        []))))))
      | _ \<Rightarrow> Inr (Some rule, []))"

text \<open>\<open>_update_node_sets(node_sets, id_mapping)\<close>: the returned dict, and the warnings
  logged on the way.\<close>

definition update_node_sets_step ::
  "(string \<times> id_mapping) list \<Rightarrow> (string \<times> json) list \<times> string list \<Rightarrow> string \<times> json
     \<Rightarrow> error + ((string \<times> json) list \<times> string list)" where
  "update_node_sets_step id_mapping state item =
     (case update_rule id_mapping (fst item) (snd item) of
        Inl e \<Rightarrow> Inl e
      | Inr (None, warnings) \<Rightarrow> Inr (fst state, snd state @ warnings)
      | Inr (Some rule', warnings) \<Rightarrow>
          Inr (AList.update (fst item) rule' (fst state), snd state @ warnings))"

definition update_node_sets ::
  "(string \<times> json) list \<Rightarrow> (string \<times> id_mapping) list
     \<Rightarrow> error + ((string \<times> json) list \<times> string list)" where
  "update_node_sets node_sets id_mapping =
     for_loop (update_node_sets_step id_mapping) ([], []) node_sets"

text \<open>\<open>isinstance(rule, dict) and key in rule\<close>.\<close>

definition has_key :: "string \<Rightarrow> json \<Rightarrow> bool" where
  "has_key k rule = (case rule of JObj items \<Rightarrow> map_of items k \<noteq> None | _ \<Rightarrow> False)"

text \<open>The node sets and the id mapping of the unit test \<open>test__update_node_sets\<close>, with one
  more rule, which names a population that the mapping does not have.\<close>

definition example_node_sets :: "(string \<times> json) list" where
  "example_node_sets =
     [(''CopiedNoNodeIds'', JList [JStr ''All'']),
      (''MissingPopluationNotCopied'',
         JObj [(''node_id'', JList [JInt 15, JInt 280, JInt 397, JInt 509, JInt 555, JInt 624,
                                     JInt 651, JInt 789])]),
      (''HasPopulationCopied'',
         JObj [(''population'', JStr ''A''),
               (''node_id'', JList [JInt 3, JInt 4, JInt 5, JInt 1003, JInt 1004, JInt 1005]),
               (''mtype'', JStr ''foo'')]),
      (''AbsentPopulation'',
         JObj [(''population'', JStr ''B''), (''node_id'', JList [JInt 3])])]"

definition example_id_mapping :: "(string \<times> id_mapping) list" where
  "example_id_mapping = [(''A'', [(0, 0), (5, 1), (4, 2), (3, 3)])]"

text \<open>The warnings that the loop body logs for one item (used in the proofs).\<close>

definition rule_warnings :: "(string \<times> id_mapping) list \<Rightarrow> string \<times> json \<Rightarrow> string list" where
  "rule_warnings id_mapping item =
     (case update_rule id_mapping (fst item) (snd item) of Inl e \<Rightarrow> [] | Inr (out, w) \<Rightarrow> w)"

subsection \<open>HDF5 containers\<close>

text \<open>An object of an HDF5 group is a dataset, with its dtype and its values, or a group
  of named objects.  An edge population is the group \<open>/edges/<name>\<close>: its two id
  columns with their \<open>node_population\<close> attributes, the group \<open>0\<close> when present, the three
  bookkeeping columns when present, and the node counts of its indices once
  \<open>write_indices\<close> has built them.  A file is its group \<open>/edges\<close>, when it has one; the
  file system maps paths to files.\<close>

type_synonym dtype = string

datatype 'v h5obj = Dataset dtype "'v list" | Group "(string \<times> 'v h5obj) list"

type_synonym 'v h5group = "(string \<times> 'v h5obj) list"

record 'v edge_population =
  source_node_id :: "int list"
  target_node_id :: "int list"
  source_node_population :: string
  target_node_population :: string
  group0 :: "'v h5group option"
  edge_type_id :: "int list option"
  edge_group_id :: "int list option"
  edge_group_index :: "int list option"
  indices :: "(int \<times> int) option"

type_synonym 'v h5file = "(string \<times> 'v edge_population) list option"

type_synonym 'v filesystem = "(string \<times> 'v h5file) list"

text \<open>A loop over a mutable state whose body may raise: the state reached is kept, as
  the object or the file on disk keeps what was written before the exception.\<close>

fun for_each :: "('s \<Rightarrow> 'a \<Rightarrow> 's \<times> error option) \<Rightarrow> 's \<Rightarrow> 'a list \<Rightarrow> 's \<times> error option" where
  "for_each body s [] = (s, None)"
| "for_each body s (x # xs) =
     (case body s x of
        (s', Some e) \<Rightarrow> (s', Some e)
      | (s', None) \<Rightarrow> for_each body s' xs)"

text \<open>Modelled from the spec: \<open>utils.create_appendable_dataset(group, name, dtype)\<close> and
  \<open>utils.append_to_dataset(dataset, values)\<close> of \<open>brainbuilder/utils\<close>, the container
  primitives "create-empty-with-dtype" and "append-rows".  HDF5 refuses a name that the
  group already uses.\<close>

definition create_appendable_dataset :: "'v h5group \<Rightarrow> string \<Rightarrow> dtype \<Rightarrow> 'v h5group \<times> error option" where
  "create_appendable_dataset grp name dt =
     (if name \<in> fst ` set grp then (grp, Some NameExists)
      else (grp @ [(name, Dataset dt [])], None))"

definition append_to_dataset :: "'v h5group \<Rightarrow> string \<Rightarrow> 'v list \<Rightarrow> 'v h5group \<times> error option" where
  "append_to_dataset grp name values =
     (case map_of grp name of
        Some (Dataset dt d) \<Rightarrow> (AList.update name (Dataset dt (d @ values)) grp, None)
      | Some (Group _) \<Rightarrow> (grp, Some TypeError)
      | None \<Rightarrow> (grp, Some KeyError))"

text \<open>\<open>group.create_group(name)\<close>.\<close>

definition create_group :: "'v h5group \<Rightarrow> string \<Rightarrow> 'v h5group \<times> error option" where
  "create_group grp name =
     (if name \<in> fst ` set grp then (grp, Some NameExists)
      else (grp @ [(name, Group [])], None))"

subsection \<open>Unique population and group\<close>

text \<open>\<open>_get_unique_population(parent)\<close>.\<close>

definition get_unique_population :: "(string \<times> 'a) list \<Rightarrow> error + string" where
  "get_unique_population parent =
     (let population_names = map fst parent in
      if length population_names \<noteq> 1 then Inl ValueError
      else Inr (hd population_names))"

text \<open>\<open>_get_unique_group(parent)\<close>, with \<open>GROUP_NAME = '0'\<close>.\<close>

definition get_unique_group :: "'v edge_population \<Rightarrow> error + 'v h5group" where
  "get_unique_group parent =
     (case group0 parent of None \<Rightarrow> Inl ValueError | Some g \<Rightarrow> Inr g)"

subsection \<open>Copying the attributes of the edges\<close>

text \<open>\<open>_init_edge_group(orig_group, new_group)\<close>: the inner loop over the datasets of
  \<open>dynamics_params\<close>, the body of the outer loop, and the function.\<close>

definition init_dynamics_param :: "'v h5group \<Rightarrow> string \<times> 'v h5obj \<Rightarrow> 'v h5group \<times> error option" where
  "init_dynamics_param sub item =
     (case snd item of
        Dataset dt _ \<Rightarrow> create_appendable_dataset sub (fst item) dt
      | Group _ \<Rightarrow> (sub, Some AssertionError))"

definition init_edge_group_item :: "'v h5group \<Rightarrow> string \<times> 'v h5obj \<Rightarrow> 'v h5group \<times> error option" where
  "init_edge_group_item new_group item =
     (case snd item of
        Dataset dt _ \<Rightarrow> create_appendable_dataset new_group (fst item) dt
      | Group children \<Rightarrow>
          if fst item = ''dynamics_params'' then
            (case create_group new_group (fst item) of
               (g, Some e) \<Rightarrow> (g, Some e)
             | (g, None) \<Rightarrow>
                 (case for_each init_dynamics_param [] children of
                    (sub, err) \<Rightarrow> (AList.update (fst item) (Group sub) g, err)))
          else (new_group, Some ValueError))"

definition init_edge_group :: "'v h5group \<Rightarrow> 'v h5group \<Rightarrow> 'v h5group \<times> error option" where
  "init_edge_group orig_group new_group = for_each init_edge_group_item new_group orig_group"

text \<open>\<open>_populate_edge_group(orig_group, new_group, sl, mask)\<close>.  \<open>attr[sl][mask]\<close> is
  \<open>np_mask (py_slice data sl) mask\<close>.\<close>

definition populate_dynamics_param ::
  "string \<Rightarrow> int \<times> int \<Rightarrow> bool list \<Rightarrow> 'v h5group \<Rightarrow> string \<times> 'v h5obj
     \<Rightarrow> 'v h5group \<times> error option" where
  "populate_dynamics_param name sl bmask new_group item =
     (case snd item of
        Dataset _ data \<Rightarrow>
          (case map_of new_group name of
             None \<Rightarrow> (new_group, Some KeyError)
           | Some (Dataset _ _) \<Rightarrow> (new_group, Some TypeError)
           | Some (Group sub) \<Rightarrow>
               if fst item \<notin> fst ` set sub then (new_group, Some KeyError)
               else
                 (case np_mask (py_slice data sl) bmask of
                    Inl e \<Rightarrow> (new_group, Some e)
                  | Inr values \<Rightarrow>
                      (case append_to_dataset sub (fst item) values of
                         (sub', err) \<Rightarrow> (AList.update name (Group sub') new_group, err))))
      | Group _ \<Rightarrow> (new_group, None))"

definition populate_edge_group_item ::
  "int \<times> int \<Rightarrow> bool list \<Rightarrow> 'v h5group \<Rightarrow> string \<times> 'v h5obj \<Rightarrow> 'v h5group \<times> error option" where
  "populate_edge_group_item sl bmask new_group item =
     (case snd item of
        Dataset _ data \<Rightarrow>
          (if fst item \<notin> fst ` set new_group then (new_group, Some KeyError)
           else case np_mask (py_slice data sl) bmask of
                  Inl e \<Rightarrow> (new_group, Some e)
                | Inr values \<Rightarrow> append_to_dataset new_group (fst item) values)
      | Group children \<Rightarrow>
          if fst item = ''dynamics_params'' then
            for_each (populate_dynamics_param (fst item) sl bmask) new_group children
          else (new_group, Some ValueError))"

definition populate_edge_group ::
  "'v h5group \<Rightarrow> 'v h5group \<Rightarrow> int \<times> int \<Rightarrow> bool list \<Rightarrow> 'v h5group \<times> error option" where
  "populate_edge_group orig_group new_group sl bmask =
     for_each (populate_edge_group_item sl bmask) new_group orig_group"

text \<open>\<open>_finalize_edges(new_edges)\<close>.  Assigning to a name that the group already has is
  refused by HDF5.\<close>

definition np_full :: "nat \<Rightarrow> int \<Rightarrow> int list" where
  "np_full n v = replicate n v"

definition finalize_edges :: "'v edge_population \<Rightarrow> 'v edge_population \<times> error option" where
  "finalize_edges new_edges =
     (let edge_count = length (source_node_id new_edges) in
      if edge_type_id new_edges \<noteq> None then (new_edges, Some NameExists)
      else
        let e1 = new_edges\<lparr>edge_type_id := Some (np_full edge_count (- 1))\<rparr> in
        if edge_group_id e1 \<noteq> None then (e1, Some NameExists)
        else
          let e2 = e1\<lparr>edge_group_id := Some (np_full edge_count 0)\<rparr> in
          if edge_group_index e2 \<noteq> None then (e2, Some NameExists)
          else (e2\<lparr>edge_group_index := Some (np_arange edge_count)\<rparr>, None))"

text \<open>\<open>mapping.loc[keys]\<close> for a list of old ids, on a mapping whose old ids are unique
  (as those of every mapping that this module builds): the rows of the keys, in the order
  of the keys; a key that the index does not have raises.\<close>

definition df_loc :: "id_mapping \<Rightarrow> int list \<Rightarrow> error + id_mapping" where
  "df_loc mapping keys =
     (if set keys \<subseteq> set (df_index mapping)
      then Inr (map (\<lambda>k. (k, the (map_of mapping k))) keys)
      else Inl KeyError)"

text \<open>\<open>_copy_edge_attributes\<close>.  \<open>copy_chunk\<close> is the body of its loop over the slices;
  the state is the output population \<open>new_edges\<close> with its group \<open>new_group\<close>.
  \<open>copy_rows\<close> is the function from \<open>_init_edge_group\<close> on, and
  \<open>copy_edge_attributes\<close> the whole function, acting on the output file.  Its first
  argument is the read chunk size of the environment, which \<open>_isin\<close> reads and which
  stands in for \<open>h5_read_chunk_size\<close> when that is \<open>None\<close>.\<close>

definition copy_chunk ::
  "int \<Rightarrow> 'v edge_population \<Rightarrow> 'v h5group \<Rightarrow> id_mapping \<Rightarrow> id_mapping
     \<Rightarrow> 'v edge_population \<times> 'v h5group \<Rightarrow> int \<times> int
     \<Rightarrow> ('v edge_population \<times> 'v h5group) \<times> error option" where
  "copy_chunk env orig_edges orig_group src_mapping dst_mapping state sl =
     (let new_edges = fst state; new_group = snd state;
          sgids = py_slice (source_node_id orig_edges) sl;
          tgids = py_slice (target_node_id orig_edges) sl in
      case isin env sgids (df_index src_mapping) False of
        Inl e \<Rightarrow> (state, Some e)
      | Inr sgid_mask \<Rightarrow>
      (case isin env tgids (df_index dst_mapping) False of
        Inl e \<Rightarrow> (state, Some e)
      | Inr tgid_mask \<Rightarrow>
      (case np_and sgid_mask tgid_mask of
        Inl e \<Rightarrow> (state, Some e)
      | Inr bmask \<Rightarrow>
          if np_any bmask then
            (case np_mask sgids bmask of
               Inl e \<Rightarrow> (state, Some e)
             | Inr skeys \<Rightarrow>
            (case df_loc src_mapping skeys of
               Inl e \<Rightarrow> (state, Some e)
             | Inr srows \<Rightarrow>
                 let e1 = new_edges\<lparr>source_node_id := source_node_id new_edges @ new_id srows\<rparr> in
                 (case np_mask tgids bmask of
                    Inl e \<Rightarrow> ((e1, new_group), Some e)
                  | Inr tkeys \<Rightarrow>
                 (case df_loc dst_mapping tkeys of
                    Inl e \<Rightarrow> ((e1, new_group), Some e)
                  | Inr trows \<Rightarrow>
                      let e2 = e1\<lparr>target_node_id := target_node_id e1 @ new_id trows\<rparr> in
                      (case populate_edge_group orig_group new_group sl bmask of
                         (g, err) \<Rightarrow> ((e2, g), err))))))
          else (state, None))))"

definition copy_rows ::
  "int \<Rightarrow> int \<Rightarrow> 'v edge_population \<Rightarrow> 'v h5group \<Rightarrow> id_mapping \<Rightarrow> id_mapping
     \<Rightarrow> 'v edge_population \<Rightarrow> ('v edge_population \<times> 'v h5group) \<times> error option" where
  "copy_rows env h5_read_chunk_size orig_edges orig_group src_mapping dst_mapping new_edges =
     (case init_edge_group orig_group [] of
        (g, Some e) \<Rightarrow> ((new_edges, g), Some e)
      | (g, None) \<Rightarrow>
          if \<not> list_all (\<lambda>i. 0 \<le> i) (df_index src_mapping) then ((new_edges, g), Some AssertionError)
          else if \<not> list_all (\<lambda>i. 0 \<le> i) (df_index dst_mapping)
          then ((new_edges, g), Some AssertionError)
          else
            (case create_chunked_slices (length (source_node_id orig_edges)) h5_read_chunk_size of
               Inl e \<Rightarrow> ((new_edges, g), Some e)
             | Inr slices \<Rightarrow>
                 (case for_each (copy_chunk env orig_edges orig_group src_mapping dst_mapping)
                         (new_edges, g) slices of
                    (s, Some e) \<Rightarrow> (s, Some e)
                  | (s, None) \<Rightarrow>
                      (case finalize_edges (fst s) of (e', err) \<Rightarrow> ((e', snd s), err)))))"

definition copy_edge_attributes ::
  "int \<Rightarrow> 'v h5file \<Rightarrow> 'v h5file \<Rightarrow> string \<Rightarrow> string \<Rightarrow> string \<Rightarrow> string
     \<Rightarrow> id_mapping \<Rightarrow> id_mapping \<Rightarrow> int option \<Rightarrow> 'v h5file \<times> error option" where
  "copy_edge_attributes env h5in h5out src_node_name dst_node_name src_edge_name dst_edge_name
       src_mapping dst_mapping h5_read_chunk_size =
     (let chunk = (case h5_read_chunk_size of None \<Rightarrow> env | Some c \<Rightarrow> c) in
      case h5in of
        None \<Rightarrow> (h5out, Some KeyError)
      | Some populations \<Rightarrow>
      (case map_of populations src_edge_name of
        None \<Rightarrow> (h5out, Some KeyError)
      | Some orig_edges \<Rightarrow>
      (case get_unique_group orig_edges of
        Inl e \<Rightarrow> (h5out, Some e)
      | Inr orig_group \<Rightarrow>
          let out_populations = (case h5out of None \<Rightarrow> [] | Some ps \<Rightarrow> ps) in
          if dst_edge_name \<in> fst ` set out_populations then (h5out, Some NameExists)
          else
            let new_edges = \<lparr>source_node_id = [], target_node_id = [],
                  source_node_population = src_node_name,
                  target_node_population = dst_node_name,
                  group0 = Some [], edge_type_id = None, edge_group_id = None,
                  edge_group_index = None, indices = None\<rparr> in
            (case copy_rows env chunk orig_edges orig_group src_mapping dst_mapping new_edges of
               (s, err) \<Rightarrow>
                 (Some (out_populations @ [(dst_edge_name, (fst s)\<lparr>group0 := Some (snd s)\<rparr>)]),
                  err)))))"

subsection \<open>Counting, indexing and writing the edges\<close>

text \<open>\<open>_get_node_counts(h5out, new_pop_name)\<close>; \<open>np.max\<close> refuses an empty array.\<close>

definition get_node_counts :: "'v h5file \<Rightarrow> string \<Rightarrow> error + (nat \<times> int \<times> int)" where
  "get_node_counts h5out new_pop_name =
     (case h5out of
        None \<Rightarrow> Inl KeyError
      | Some populations \<Rightarrow>
          (case map_of populations new_pop_name of
             None \<Rightarrow> Inl KeyError
           | Some new_edges \<Rightarrow>
               let edge_count = length (source_node_id new_edges) in
               if edge_count > 0 then
                 (if target_node_id new_edges = [] then Inl ValueError
                  else Inr (edge_count,
                            Max (set (source_node_id new_edges)) + 1,
                            Max (set (target_node_id new_edges)) + 1))
               else Inr (edge_count, 0, 0)))"

text \<open>\<open>_write_indexes\<close> hands the file to \<open>libsonata.EdgePopulation.write_indices\<close>, which
  is not part of this module: the model records, in the population, the node counts that
  the indices were built for, and nothing of their contents.\<close>

definition write_indexes ::
  "'v filesystem \<Rightarrow> string \<Rightarrow> string \<Rightarrow> int \<Rightarrow> int \<Rightarrow> 'v filesystem \<times> error option" where
  "write_indexes fs edge_file_name new_pop_name source_node_count target_node_count =
     (case map_of fs edge_file_name of
        Some (Some populations) \<Rightarrow>
          (case map_of populations new_pop_name of
             Some p \<Rightarrow>
               (AList.update edge_file_name
                  (Some (AList.update new_pop_name
                     (p\<lparr>indices := Some (source_node_count, target_node_count)\<rparr>) populations)) fs,
                None)
           | None \<Rightarrow> (fs, Some SonataError))
      | _ \<Rightarrow> (fs, Some SonataError))"

text \<open>\<open>os.path.join(a, b)\<close> on POSIX.\<close>

definition path_join :: "string \<Rightarrow> string \<Rightarrow> string" where
  "path_join a b =
     (if b \<noteq> [] \<and> hd b = CHR ''/'' then b
      else if a = [] \<or> last a = CHR ''/'' then a @ b
      else a @ ''/'' @ b)"

text \<open>\<open>_check_all_edges_used(h5in, written_edges)\<close>.\<close>

definition check_all_edges_used :: "'v h5file \<Rightarrow> int \<Rightarrow> error option" where
  "check_all_edges_used h5in written_edges =
     (case h5in of
        None \<Rightarrow> Some KeyError
      | Some populations \<Rightarrow>
          (case get_unique_population populations of
             Inl e \<Rightarrow> Some e
           | Inr name \<Rightarrow>
               (case map_of populations name of
                  None \<Rightarrow> Some KeyError
                | Some orig_edges \<Rightarrow>
                    let expected_edges = int (length (source_node_id orig_edges)) in
                    if expected_edges \<noteq> written_edges then Some RuntimeError else None)))"

text \<open>\<open>_write_edges\<close>.  \<open>write_edges_pair\<close> is the body of its loop for one pair of node
  populations; the state is the file system and \<open>written_edges\<close>.  Opening the output
  file with mode \<open>'w'\<close> creates it empty, or fails when it is the input file, which is
  open.  When the \<open>with\<close> block is left, by its end or by an exception, the file keeps
  what was written.\<close>

definition write_edges_pair ::
  "int \<Rightarrow> string \<Rightarrow> string \<Rightarrow> 'v h5file \<Rightarrow> (string \<times> id_mapping) list \<Rightarrow> int option
     \<Rightarrow> 'v filesystem \<times> int \<Rightarrow> string \<times> string \<Rightarrow> ('v filesystem \<times> int) \<times> error option" where
  "write_edges_pair env output edges_path h5in id_mapping h5_read_chunk_size state pair =
     (let fs = fst state; written_edges = snd state;
          src_node_pop = fst pair; dst_node_pop = snd pair;
          edge_pop_name = get_population_name src_node_pop dst_node_pop;
          edge_file_name = path_join output (get_edge_file_name edge_pop_name) in
      if edge_file_name = edges_path then (state, Some OSError)
      else
        let h5out = None;
            inside =
              (case h5in of
                 None \<Rightarrow> (h5out, Inl KeyError)
               | Some populations \<Rightarrow>
                   (case get_unique_population populations of
                      Inl e \<Rightarrow> (h5out, Inl e)
                    | Inr src_edge_name \<Rightarrow>
                        (case map_of id_mapping src_node_pop of
                           None \<Rightarrow> (h5out, Inl KeyError)
                         | Some src_mapping \<Rightarrow>
                             (case map_of id_mapping dst_node_pop of
                                None \<Rightarrow> (h5out, Inl KeyError)
                              | Some dst_mapping \<Rightarrow>
                                  (case copy_edge_attributes env h5in h5out src_node_pop
                                          dst_node_pop src_edge_name edge_pop_name src_mapping
                                          dst_mapping h5_read_chunk_size of
                                     (h, Some e) \<Rightarrow> (h, Inl e)
                                   | (h, None) \<Rightarrow> (h, get_node_counts h edge_pop_name))))));
            fs1 = AList.update edge_file_name (fst inside) fs in
        case snd inside of
          Inl e \<Rightarrow> ((fs1, written_edges), Some e)
        | Inr (edge_count, sgid_count, tgid_count) \<Rightarrow>
            if edge_count > 0 then
              (case write_indexes fs1 edge_file_name edge_pop_name sgid_count tgid_count of
                 (fs2, Some e) \<Rightarrow> ((fs2, written_edges), Some e)
               | (fs2, None) \<Rightarrow> ((fs2, written_edges + int edge_count), None))
            else ((AList.delete edge_file_name fs1, written_edges), None))"

definition write_edges ::
  "int \<Rightarrow> string \<Rightarrow> string \<Rightarrow> (string \<times> id_mapping) list \<Rightarrow> int option \<Rightarrow> bool
     \<Rightarrow> 'v filesystem \<Rightarrow> 'v filesystem \<times> error option" where
  "write_edges env output edges_path id_mapping h5_read_chunk_size expect_to_use_all_edges fs =
     (case map_of fs edges_path of
        None \<Rightarrow> (fs, Some OSError)
      | Some h5in \<Rightarrow>
          (case for_each
                  (write_edges_pair env output edges_path h5in id_mapping h5_read_chunk_size)
                  (fs, 0) (List.product (map fst id_mapping) (map fst id_mapping)) of
             (s, Some e) \<Rightarrow> (fst s, Some e)
           | (s, None) \<Rightarrow>
               if expect_to_use_all_edges then (fst s, check_all_edges_used h5in (snd s))
               else (fst s, None)))"

text \<open>\<open>_write_subcircuit_edges\<close>, which returns the path of the output file or the sentinel
  \<open>DELETED_EMPTY_EDGES_FILE\<close>.  Mode \<open>'a'\<close> opens the output file as it is, or creates it
  empty.\<close>

definition DELETED_EMPTY_EDGES_FILE :: string where
  "DELETED_EMPTY_EDGES_FILE = ''DELETED_EMPTY_EDGES_FILE''"

definition write_subcircuit_edges ::
  "int \<Rightarrow> string \<Rightarrow> string \<Rightarrow> string \<Rightarrow> string \<Rightarrow> string \<Rightarrow> string \<Rightarrow> id_mapping \<Rightarrow> id_mapping
     \<Rightarrow> 'v filesystem \<Rightarrow> 'v filesystem \<times> (error + string)" where
  "write_subcircuit_edges env output_path edges_path src_node_pop dst_node_pop src_edge_pop_name
       dst_edge_pop_name src_mapping dst_mapping fs =
     (case map_of fs edges_path of
        None \<Rightarrow> (fs, Inl OSError)
      | Some h5in \<Rightarrow>
          if output_path = edges_path then (fs, Inl OSError)
          else
            let h5out = (case map_of fs output_path of None \<Rightarrow> None | Some f \<Rightarrow> f) in
            (case copy_edge_attributes env h5in h5out src_node_pop dst_node_pop src_edge_pop_name
                    dst_edge_pop_name src_mapping dst_mapping None of
               (h, Some e) \<Rightarrow> (AList.update output_path h fs, Inl e)
             | (h, None) \<Rightarrow>
                 (case get_node_counts h dst_edge_pop_name of
                    Inl e \<Rightarrow> (AList.update output_path h fs, Inl e)
                  | Inr (edge_count, sgid_count, tgid_count) \<Rightarrow>
                      (case (if edge_count = 0 then
                               (case h of
                                  None \<Rightarrow> Inl KeyError
                                | Some ps \<Rightarrow>
                                    Inr (Some (AList.delete dst_edge_pop_name ps),
                                         length (AList.delete dst_edge_pop_name ps) = 0))
                             else Inr (h, False)) of
                         Inl e \<Rightarrow> (AList.update output_path h fs, Inl e)
                       | Inr (h', is_file_empty) \<Rightarrow>
                           let fs1 = AList.update output_path h' fs in
                           if edge_count > 0 then
                             (case write_indexes fs1 output_path dst_edge_pop_name
                                     sgid_count tgid_count of
                                (fs2, Some e) \<Rightarrow> (fs2, Inl e)
                              | (fs2, None) \<Rightarrow> (fs2, Inr output_path))
                           else if is_file_empty then
                             (AList.delete output_path fs1, Inr DELETED_EMPTY_EDGES_FILE)
                           else (fs1, Inr output_path)))))"

text \<open>The id columns of the input file \<open>edges.h5\<close> of the unit tests, with an edge
  attribute \<open>delay\<close> added as an example, and the first id mapping of
  \<open>test__write_edges\<close>.\<close>

definition example_edges_h5 :: "int h5file" where
  "example_edges_h5 =
     Some [(''default'',
        \<lparr>source_node_id = [2, 0, 0, 2], target_node_id = [0, 1, 1, 1],
         source_node_population = ''default'', target_node_population = ''default'',
         group0 = Some [(''delay'', Dataset ''float32'' [10, 11, 12, 13])],
         edge_type_id = Some [- 1, - 1, - 1, - 1], edge_group_id = Some [0, 0, 0, 0],
         edge_group_index = Some [0, 1, 2, 3], indices = Some (3, 2)\<rparr>)]"

definition example_edge_id_mapping :: "(string \<times> id_mapping) list" where
  "example_edge_id_mapping =
     [(''A'', [(5, 0), (4, 1), (3, 2), (0, 3)]), (''B'', [(1, 0), (2, 1)])]"

text \<open>An object that holds no rows: an empty dataset, or a group of such objects (used
  in the proofs).\<close>

fun obj_empty :: "'v h5obj \<Rightarrow> bool" where
  "obj_empty (Dataset dt d) = (d = [])"
| "obj_empty (Group items) = list_all (\<lambda>item. obj_empty (snd item)) items"

definition group_empty :: "'v h5group \<Rightarrow> bool" where
  "group_empty grp = list_all (\<lambda>item. obj_empty (snd item)) grp"

text \<open>A file system that holds the example input file, and the same after
  \<open>_write_subcircuit_edges\<close> has written two edges of it to \<open>out/e.h5\<close>.\<close>

definition example_fs :: "int filesystem" where
  "example_fs = [(''edges.h5'', example_edges_h5)]"

definition example_fs_written :: "int filesystem" where
  "example_fs_written =
     fst (write_subcircuit_edges 3 ''out/e.h5'' ''edges.h5'' ''default'' ''default'' ''default''
            ''default'' [(0, 0)] [(1, 0)] example_fs)"

text \<open>The edge count that \<open>_write_edges\<close> reads, through \<open>_get_node_counts\<close>, from the
  population that \<open>_copy_edge_attributes\<close> has written for a pair of node populations:
  the length of its column of source ids (used in the proofs).\<close>

definition copied_edge_count ::
  "int \<Rightarrow> 'v h5file \<Rightarrow> (string \<times> id_mapping) list \<Rightarrow> int option \<Rightarrow> string \<times> string \<Rightarrow> nat" where
  "copied_edge_count env h5in id_mapping h5_read_chunk_size pair =
     (case h5in of
        None \<Rightarrow> 0
      | Some populations \<Rightarrow>
          (case get_unique_population populations of
             Inl e \<Rightarrow> 0
           | Inr src_edge_name \<Rightarrow>
               (case map_of id_mapping (fst pair) of
                  None \<Rightarrow> 0
                | Some src_mapping \<Rightarrow>
                    (case map_of id_mapping (snd pair) of
                       None \<Rightarrow> 0
                     | Some dst_mapping \<Rightarrow>
                         (case fst (copy_edge_attributes env h5in None (fst pair) (snd pair)
                                      src_edge_name (get_population_name (fst pair) (snd pair))
                                      src_mapping dst_mapping h5_read_chunk_size) of
                            None \<Rightarrow> 0
                          | Some ps \<Rightarrow>
                              (case map_of ps (get_population_name (fst pair) (snd pair)) of
                                 None \<Rightarrow> 0
                               | Some p \<Rightarrow> length (source_node_id p)))))))"

section \<open>Properties\<close>

subsection \<open>Chunked membership\<close>


lemma py_slice_window:
  assumes "0 \<le> start" "0 < c"
  shows "py_slice xs (start, start + c) = take (nat c) (drop (nat start) xs)"
proof -
  have s: "slice_bound (length xs) start = min (length xs) (nat start)"
    using assms by (simp add: slice_bound_def)
  have e: "slice_bound (length xs) (start + c) = min (length xs) (nat start + nat c)"
    using assms by (simp add: slice_bound_def nat_add_distrib)
  show ?thesis
  proof (cases "nat start \<le> length xs")
    case True
    then show ?thesis
      unfolding py_slice_def Let_def fst_conv snd_conv s e
      by (simp add: min_def)
  next
    case False
    then show ?thesis
      unfolding py_slice_def Let_def fst_conv snd_conv s e
      by (simp add: min_def)
  qed
qed

lemma concat_windows:
  shows "0 < c \<Longrightarrow> 0 \<le> s \<Longrightarrow>
    concat (map (\<lambda>start. map p (py_slice xs (start, start + c))) (py_range_up s (int (length xs)) c))
      = map p (drop (nat s) xs)"
proof (induction s "int (length xs)" c rule: py_range_up.induct)
  case (1 start step)
  show ?case
  proof (cases "0 < step \<and> start < int (length xs)")
    case True
    then have step: "0 < step" and lt: "start < int (length xs)" by simp_all
    have ih: "concat (map (\<lambda>start. map p (py_slice xs (start, start + step)))
                (py_range_up (start + step) (int (length xs)) step))
            = map p (drop (nat (start + step)) xs)"
      using "1.hyps" True "1.prems" by simp
    have unf: "py_range_up start (int (length xs)) step
        = start # py_range_up (start + step) (int (length xs)) step"
      by (subst py_range_up.simps) (simp add: True)
    have dd: "drop (nat (start + step)) xs = drop (nat step) (drop (nat start) xs)"
      using "1.prems" step by (simp add: nat_add_distrib add.commute)
    have "map p (take (nat step) (drop (nat start) xs)) @ map p (drop (nat (start + step)) xs)
        = map p (drop (nat start) xs)"
      unfolding dd map_append [symmetric] append_take_drop_id ..
    then show ?thesis
      unfolding unf by (simp add: ih py_slice_window [OF "1.prems"(2) step])
  next
    case False
    have unf: "py_range_up start (int (length xs)) step = []"
      by (subst py_range_up.simps) (use False in simp)
    from False "1.prems" have "int (length xs) \<le> start" by simp
    then show ?thesis unfolding unf by simp
  qed
qed


lemma py_range_up_nonempty:
  "0 < step \<Longrightarrow> start < stop \<Longrightarrow> py_range_up start stop step \<noteq> []"
  by (subst py_range_up.simps) simp

lemma create_chunked_slices_pos:
  "0 < c \<Longrightarrow> create_chunked_slices n c = Inr (map (\<lambda>start. (start, start + c)) (py_range_up 0 (int n) c))"
  by (simp add: create_chunked_slices_def py_range_def)

lemma isin_chunks_concat:
  assumes "0 < c"
  shows "concat (map (\<lambda>sl. isin_worker elements test_elements sl invert)
            (map (\<lambda>start. (start, start + c)) (py_range_up 0 (int (length elements)) c)))
         = np_isin elements test_elements invert"
  using concat_windows [OF assms, of 0 "\<lambda>x. (x \<in> set test_elements) \<noteq> invert" elements]
  by (simp add: isin_worker_def np_isin_def comp_def)

lemma isin_whole:
  assumes "1 \<le> h5_chunksize"
  shows "isin h5_chunksize elements test_elements invert = Inr (np_isin elements test_elements invert)"
proof (cases "int (length elements) < h5_chunksize")
  case True
  then show ?thesis by (simp add: isin_def)
next
  case False
  define c where "c = max 500 (int_truediv_500 h5_chunksize)"
  have c: "0 < c" by (simp add: c_def)
  from False assms have ne: "elements \<noteq> []" by auto
  then have "py_range_up 0 (int (length elements)) c \<noteq> []"
    using c by (intro py_range_up_nonempty) simp_all
  then show ?thesis
    using False isin_chunks_concat [OF c, of elements test_elements invert]
    by (simp add: isin_def Let_def c_def [symmetric] create_chunked_slices_pos [OF c]
        np_concatenate_def)
qed


text \<open>
  Claim C1.  For every array, needle set and invert flag, the chunked membership test
  returns the mask of one membership test on the whole array: \<open>_isin\<close> does so for
  every configured read chunk size of at least 1, the per-window masks over the slices of
  \<open>_create_chunked_slices\<close>, concatenated in window order, do so for every window size of
  at least 1, and the empty array gives the empty mask.
\<close>

theorem isin_equals_whole_array_test:
  assumes "1 \<le> h5_chunksize" and "1 \<le> chunk_size"
  shows "isin h5_chunksize elements test_elements invert
           = Inr (np_isin elements test_elements invert)
       \<and> (\<exists>slices. create_chunked_slices (length elements) chunk_size = Inr slices
             \<and> concat (map (\<lambda>sl. isin_worker elements test_elements sl invert) slices)
                 = np_isin elements test_elements invert)
       \<and> isin h5_chunksize [] test_elements invert = Inr []"
proof -
  have c: "0 < chunk_size" using assms(2) by simp
  have "isin h5_chunksize [] test_elements invert = Inr (np_isin [] test_elements invert)"
    by (rule isin_whole [OF assms(1)])
  then have "isin h5_chunksize [] test_elements invert = Inr []"
    by (simp add: np_isin_def)
  then show ?thesis
    using isin_whole [OF assms(1), of elements test_elements invert]
      isin_chunks_concat [OF c, of elements test_elements invert]
    by (simp add: create_chunked_slices_pos [OF c])
qed

theorem isin_equals_whole_array_test_witness:
  "(1::int) \<le> 2 \<and> (1::int) \<le> 2
   \<and> isin 2 [1, 5, 2, 7, 3] [1, 2] False = Inr [True, False, True, False, False]
   \<and> (\<exists>slices. create_chunked_slices (length [1, 5, 2, 7, 3 :: int]) 2 = Inr slices
         \<and> concat (map (\<lambda>sl. isin_worker [1, 5, 2, 7, 3] [1, 2] sl False) slices)
             = [True, False, True, False, False])
   \<and> isin 2 [] [1, 2] False = Inr []"
  using isin_equals_whole_array_test [of 2 2 "[1, 5, 2, 7, 3]" "[1, 2]" False]
  by (simp add: np_isin_def)

subsection \<open>Population names\<close>

text \<open>
  Claim C9.  \<open>_get_population_name\<close> returns the source name itself for a self-pair and
  the source name, the target name and \<open>chemical\<close> joined by double underscores for
  two different names; a self-pair never gets the suffixed name.
\<close>

theorem get_population_name_cases:
  "get_population_name src src = src
   \<and> (src \<noteq> dst \<longrightarrow> get_population_name src dst = src @ ''__'' @ dst @ ''__chemical'')
   \<and> get_population_name src src \<noteq> src @ ''__'' @ src @ ''__chemical''"
  by (simp add: get_population_name_def get_population_name_typed_def)

theorem get_population_name_cases_witness:
  "get_population_name ''A'' ''A'' = ''A''
   \<and> get_population_name ''A'' ''B'' = ''A__B__chemical''
   \<and> get_population_name ''A'' ''A'' \<noteq> ''A__A__chemical''"
  using get_population_name_cases [of "''A''" "''B''"]
  by simp

subsection \<open>Node id mappings\<close>

lemma map_of_get_node_id_mapping:
  "map_of (get_node_id_mapping split_nodes) name = map_option node_id_frame (map_of split_nodes name)"
  by (induction split_nodes) (auto simp: get_node_id_mapping_def)

lemma node_id_frame_cols:
  "df_index (node_id_frame df) = df_index df" "new_id (node_id_frame df) = np_arange (length df)"
  by (simp_all add: node_id_frame_def df_index_def new_id_def np_arange_def)

lemma map_of_zip_nth':
  "distinct xs \<Longrightarrow> length ys = length xs \<Longrightarrow> i < length xs \<Longrightarrow> map_of (zip xs ys) (xs ! i) = Some (ys ! i)"
  by (simp add: map_of_zip_nth)

lemma node_id_frame_lookup:
  assumes "distinct (df_index df)" "i < length df"
  shows "map_of (node_id_frame df) (df_index df ! i) = Some (int i)"
  using assms map_of_zip_nth [of "df_index df" "np_arange (length df)" i]
  by (simp add: node_id_frame_def df_index_def np_arange_def)

lemma node_id_frame_bij:
  assumes "distinct (df_index df)"
  shows "bij_betw (\<lambda>old. the (map_of (node_id_frame df) old)) (set (df_index df)) {0..<int (length df)}"
proof (rule bij_betwI')
  fix x y assume "x \<in> set (df_index df)" "y \<in> set (df_index df)"
  then obtain i j where i: "i < length df" "x = df_index df ! i" and j: "j < length df" "y = df_index df ! j"
    by (auto simp: in_set_conv_nth df_index_def)
  show "(the (map_of (node_id_frame df) x) = the (map_of (node_id_frame df) y)) = (x = y)"
  proof
    assume "the (map_of (node_id_frame df) x) = the (map_of (node_id_frame df) y)"
    then have "i = j" using i j node_id_frame_lookup [OF assms] by simp
    then show "x = y" using i j by simp
  qed simp
next
  fix x assume "x \<in> set (df_index df)"
  then obtain i where i: "i < length df" "x = df_index df ! i"
    by (auto simp: in_set_conv_nth df_index_def)
  then show "the (map_of (node_id_frame df) x) \<in> {0..<int (length df)}"
    using node_id_frame_lookup [OF assms] by auto
next
  fix k assume "k \<in> {0..<int (length df)}"
  then have "nat k < length df" "int (nat k) = k" by auto
  then show "\<exists>x\<in>set (df_index df). k = the (map_of (node_id_frame df) x)"
    using node_id_frame_lookup [OF assms, of "nat k"]
    by (intro bexI [of _ "df_index df ! nat k"]) (auto simp: df_index_def)
qed

text \<open>
  Claim C2.  For each new population of the partition, with a table of n rows,
  \<open>_get_node_id_mapping\<close> yields a mapping keyed by the table's old ids, in the table's
  order, with the new ids 0..n-1 in that order.  Old ids being unique, as node ids are,
  the mapping is a bijection from the old ids onto [0, n) that sends the i-th old id to i,
  so it keeps the order in which the old ids appear.
\<close>

theorem get_node_id_mapping_bijection:
  assumes "map_of split_nodes name = Some df"
  shows "\<exists>m. map_of (get_node_id_mapping split_nodes) name = Some m
       \<and> df_index m = df_index df
       \<and> new_id m = np_arange (length df)
       \<and> new_id m = map int [0..<length df]
       \<and> (distinct (df_index df) \<longrightarrow>
            bij_betw (\<lambda>old. the (map_of m old)) (set (df_index df)) {0..<int (length df)}
          \<and> (\<forall>i < length df. map_of m (df_index df ! i) = Some (int i))
          \<and> (\<forall>i j. i < j \<and> j < length df \<longrightarrow>
                the (map_of m (df_index df ! i)) < the (map_of m (df_index df ! j))))"
proof -
  have "map_of (get_node_id_mapping split_nodes) name = Some (node_id_frame df)"
    by (simp add: map_of_get_node_id_mapping assms)
  moreover have "distinct (df_index df) \<Longrightarrow> i < j \<Longrightarrow> j < length df \<Longrightarrow>
      the (map_of (node_id_frame df) (df_index df ! i)) < the (map_of (node_id_frame df) (df_index df ! j))" for i j
    by (simp add: node_id_frame_lookup)
  ultimately show ?thesis
    using node_id_frame_bij [of df] node_id_frame_lookup [of df]
    by (simp add: node_id_frame_cols np_arange_def)
qed

theorem get_node_id_mapping_bijection_witness:
  "map_of [(''A'', [(0 :: int, ()), (5, ()), (4, ()), (3, ())]), (''B'', [(10, ())])] ''A''
      = Some [(0, ()), (5, ()), (4, ()), (3, ())]
   \<and> distinct (df_index [(0, ()), (5, ()), (4, ()), (3, ())])
   \<and> (\<exists>m. map_of (get_node_id_mapping
              [(''A'', [(0, ()), (5, ()), (4, ()), (3, ())]), (''B'', [(10, ())])]) ''A'' = Some m
         \<and> df_index m = [0, 5, 4, 3]
         \<and> new_id m = [0, 1, 2, 3]
         \<and> bij_betw (\<lambda>old. the (map_of m old)) {0, 5, 4, 3} {0..<4}
         \<and> map_of m 4 = Some 2)"
proof -
  let ?df = "[(0, ()), (5, ()), (4, ()), (3, ())] :: unit dataframe"
  let ?sn = "[(''A'', ?df), (''B'', [(10, ())])]"
  have h: "map_of ?sn ''A'' = Some ?df" by simp
  have d: "distinct (df_index ?df)" by (simp add: df_index_def)
  obtain m where m: "map_of (get_node_id_mapping ?sn) ''A'' = Some m"
      "df_index m = df_index ?df" "new_id m = map int [0..<length ?df]"
      "distinct (df_index ?df) \<longrightarrow>
            bij_betw (\<lambda>old. the (map_of m old)) (set (df_index ?df)) {0..<int (length ?df)}
          \<and> (\<forall>i < length ?df. map_of m (df_index ?df ! i) = Some (int i))
          \<and> (\<forall>i j. i < j \<and> j < length ?df \<longrightarrow>
                the (map_of m (df_index ?df ! i)) < the (map_of m (df_index ?df ! j)))"
    using get_node_id_mapping_bijection [OF h] by blast
  from m(4) d have b: "bij_betw (\<lambda>old. the (map_of m old)) (set (df_index ?df)) {0..<int (length ?df)}"
    and l: "\<forall>i < length ?df. map_of m (df_index ?df ! i) = Some (int i)" by blast+
  from l have "map_of m (df_index ?df ! 2) = Some (int 2)" by simp
  then have l2: "map_of m 4 = Some 2" by (simp add: df_index_def)
  have n: "new_id m = [0, 1, 2, 3]" using m(3) by (simp add: upt_rec)
  have i: "df_index m = [0, 5, 4, 3]" using m(2) by (simp add: df_index_def)
  have b': "bij_betw (\<lambda>old. the (map_of m old)) {0, 5, 4, 3} {0..<4}"
    using b by (simp add: df_index_def)
  show ?thesis
    by (intro conjI exI [of _ m]) (rule h d m(1) i n b' l2)+
qed

subsection \<open>External ids\<close>



















lemma external_ids_extend_example:
  "external_ids_extend 2 (Some [(5, 0), (9, 1)]) [3, 5] = Inr (Some [(5, 0), (9, 1), (3, 2)])"
  by code_simp


subsection \<open>Node sets\<close>

lemma update_node_sets_step_cases:
  assumes "update_node_sets_step id_mapping (ret, log) (n, r) = Inr (ret', log')"
  obtains out w where "update_rule id_mapping n r = Inr (out, w)" "log' = log @ w"
    "ret' = (case out of None \<Rightarrow> ret | Some r' \<Rightarrow> AList.update n r' ret)"
  using assms
  by (auto simp: update_node_sets_step_def split: sum.splits option.splits prod.splits)

lemma node_sets_loop_log:
  "for_loop (update_node_sets_step id_mapping) (ret0, log0) xs = Inr (ret, log)
     \<Longrightarrow> log = log0 @ concat (map (rule_warnings id_mapping) xs)"
proof (induction xs arbitrary: ret0 log0)
  case Nil
  then show ?case by simp
next
  case (Cons x xs)
  obtain n r where x: "x = (n, r)" by (cases x)
  from Cons.prems obtain ret1 log1 where
    st: "update_node_sets_step id_mapping (ret0, log0) (n, r) = Inr (ret1, log1)"
    and rest: "for_loop (update_node_sets_step id_mapping) (ret1, log1) xs = Inr (ret, log)"
    by (auto simp: x split: sum.splits)
  from st obtain out w where o: "update_rule id_mapping n r = Inr (out, w)" "log1 = log0 @ w"
    by (rule update_node_sets_step_cases)
  have "rule_warnings id_mapping x = w" by (simp add: rule_warnings_def x o(1))
  with Cons.IH [OF rest] o(2) show ?case by simp
qed

lemma node_sets_loop_other:
  "for_loop (update_node_sets_step id_mapping) (ret0, log0) xs = Inr (ret, log)
     \<Longrightarrow> n \<notin> fst ` set xs \<Longrightarrow> map_of ret n = map_of ret0 n"
proof (induction xs arbitrary: ret0 log0)
  case Nil
  then show ?case by simp
next
  case (Cons x xs)
  obtain m r where x: "x = (m, r)" by (cases x)
  from Cons.prems(1) obtain ret1 log1 where
    st: "update_node_sets_step id_mapping (ret0, log0) (m, r) = Inr (ret1, log1)"
    and rest: "for_loop (update_node_sets_step id_mapping) (ret1, log1) xs = Inr (ret, log)"
    by (auto simp: x split: sum.splits)
  from Cons.prems(2) have nm: "n \<noteq> m" "n \<notin> fst ` set xs" by (auto simp: x)
  from st obtain out w where
    "ret1 = (case out of None \<Rightarrow> ret0 | Some r' \<Rightarrow> AList.update m r' ret0)"
    by (rule update_node_sets_step_cases)
  then have "map_of ret1 n = map_of ret0 n"
    using nm(1) by (cases out) (simp_all add: update_conv')
  with Cons.IH [OF rest nm(2)] show ?case by simp
qed

lemma node_sets_loop_entry:
  "for_loop (update_node_sets_step id_mapping) (ret0, log0) xs = Inr (ret, log)
     \<Longrightarrow> distinct (map fst xs) \<Longrightarrow> (n, r) \<in> set xs \<Longrightarrow> map_of ret0 n = None
     \<Longrightarrow> \<exists>out w. update_rule id_mapping n r = Inr (out, w) \<and> map_of ret n = out"
proof (induction xs arbitrary: ret0 log0)
  case Nil
  then show ?case by simp
next
  case (Cons x xs)
  obtain m q where x: "x = (m, q)" by (cases x)
  from Cons.prems(1) obtain ret1 log1 where
    st: "update_node_sets_step id_mapping (ret0, log0) (m, q) = Inr (ret1, log1)"
    and rest: "for_loop (update_node_sets_step id_mapping) (ret1, log1) xs = Inr (ret, log)"
    by (auto simp: x split: sum.splits)
  from st obtain out w where o: "update_rule id_mapping m q = Inr (out, w)"
    "ret1 = (case out of None \<Rightarrow> ret0 | Some r' \<Rightarrow> AList.update m r' ret0)"
    by (rule update_node_sets_step_cases)
  from Cons.prems(2) have d: "m \<notin> fst ` set xs" "distinct (map fst xs)" by (simp_all add: x)
  show ?case
  proof (cases "(n, r) = (m, q)")
    case True
    then have nm: "n = m" "r = q" by simp_all
    have "map_of ret1 m = out"
      using o(2) Cons.prems(4) nm(1) by (cases out) (simp_all add: update_conv')
    moreover have "map_of ret m = map_of ret1 m"
      by (rule node_sets_loop_other [OF rest d(1)])
    ultimately show ?thesis using o(1) nm by simp
  next
    case False
    with Cons.prems(3) have mem: "(n, r) \<in> set xs" by (auto simp: x)
    then have "n \<noteq> m" using d(1) by force
    then have "map_of ret1 n = None"
      using o(2) Cons.prems(4) by (cases out) (simp_all add: update_conv')
    from Cons.IH [OF rest d(2) mem this] show ?thesis .
  qed
qed

lemma no_population_warning_inj:
  "no_population_warning a = no_population_warning b \<longleftrightarrow> a = b"
  by (simp add: no_population_warning_def)

lemma rule_warnings_cases:
  "rule_warnings id_mapping (n, r) = [] \<or> rule_warnings id_mapping (n, r) = [no_population_warning n]"
  by (auto simp: rule_warnings_def update_rule_def
      split: sum.splits option.splits json.splits prod.splits)

lemma sorted_remap_node_ids: "sorted (remap_node_ids mapping ids)"
  by (simp add: remap_node_ids_def)

lemma index_intersection_int_list:
  "index_intersection idx (JList (map JInt ids)) = Inr (filter (\<lambda>old. old \<in> set ids) idx)"
proof -
  have "JInt old \<in> set (map JInt ids) \<longleftrightarrow> old \<in> set ids" for old
    by auto
  then show ?thesis by simp
qed

lemma remap_node_ids_int_list:
  "remap_node_ids mapping (filter (\<lambda>old. old \<in> set ids) (df_index mapping))
     = sort (map snd (filter (\<lambda>row. fst row \<in> set ids) mapping))"
proof -
  have "filter (\<lambda>row. fst row \<in> set (filter (\<lambda>old. old \<in> set ids) (df_index mapping))) mapping
      = filter (\<lambda>row. fst row \<in> set ids) mapping"
    by (rule filter_cong) (auto simp: df_index_def)
  then show ?thesis by (simp add: remap_node_ids_def new_id_def)
qed

lemma set_remapped:
  "set (sort (map snd (filter (\<lambda>row. fst row \<in> set ids) mapping)))
     = {new. \<exists>old \<in> set ids. (old, new) \<in> set mapping}"
  by force

lemma set_remap_node_ids: "set (remap_node_ids mapping common) \<subseteq> set (new_id mapping)"
  by (auto simp: remap_node_ids_def new_id_def)

lemma update_rule_present:
  assumes "update_rule id_mapping name (JObj items) = Inr (out, w)"
    and "map_of items ''node_id'' = Some node_id"
    and "map_of items ''population'' = Some (JStr p)"
    and "map_of id_mapping p = Some mapping"
  obtains common where "index_intersection (df_index mapping) node_id = Inr common"
    "out = Some (JObj (AList.update ''node_id''
              (JList (map JInt (remap_node_ids mapping common))) items))"
  using assms
  by (cases "index_intersection (df_index mapping) node_id") (simp_all add: update_rule_def)

lemma remapped_rule:
  assumes "index_intersection (df_index mapping) node_id = Inr common"
  shows "sorted (remap_node_ids mapping common)
       \<and> set (remap_node_ids mapping common) \<subseteq> set (new_id mapping)
       \<and> (\<forall>ids. node_id = JList (map JInt ids) \<longrightarrow>
             remap_node_ids mapping common
               = sort (map snd (filter (\<lambda>row. fst row \<in> set ids) mapping))
           \<and> set (remap_node_ids mapping common)
               = {new. \<exists>old \<in> set ids. (old, new) \<in> set mapping})"
proof (intro conjI allI impI)
  show "sorted (remap_node_ids mapping common)" by (rule sorted_remap_node_ids)
  show "set (remap_node_ids mapping common) \<subseteq> set (new_id mapping)"
    by (rule set_remap_node_ids)
next
  fix ids assume "node_id = JList (map JInt ids)"
  with assms have c: "common = filter (\<lambda>old. old \<in> set ids) (df_index mapping)"
    by (simp only: index_intersection_int_list sum.inject)
  show "remap_node_ids mapping common
      = sort (map snd (filter (\<lambda>row. fst row \<in> set ids) mapping))"
    unfolding c by (rule remap_node_ids_int_list)
  then show "set (remap_node_ids mapping common)
      = {new. \<exists>old \<in> set ids. (old, new) \<in> set mapping}"
    by (simp only: set_remapped)
qed

lemma example_node_sets_result:
  "update_node_sets example_node_sets example_id_mapping =
     Inr ([(''CopiedNoNodeIds'', JList [JStr ''All'']),
           (''HasPopulationCopied'',
              JObj [(''population'', JStr ''A''),
                    (''node_id'', JList [JInt 1, JInt 2, JInt 3]),
                    (''mtype'', JStr ''foo'')])],
          [''No population key in nodeset MissingPopluationNotCopied, ignoring''])"
  by code_simp

lemma example_node_sets_distinct: "distinct (map fst example_node_sets)"
  by (simp add: example_node_sets_def)

text \<open>
  Claim C7, as the specification states it: a rule with \<open>node_id\<close> whose population is
  absent from the id mapping is dropped and the caller is warned.  The code drops the rule
  without a warning: in the example the rule \<open>AbsentPopulation\<close> is not in the output and
  the only warning logged is the one for the rule that has no population key.
\<close>

theorem update_node_sets_absent_population_counterexample:
  "update_rule example_id_mapping ''AbsentPopulation''
       (JObj [(''population'', JStr ''B''), (''node_id'', JList [JInt 3])]) = Inr (None, [])
   \<and> map_of example_id_mapping ''B'' = None
   \<and> snd (projr (update_node_sets example_node_sets example_id_mapping))
        = [''No population key in nodeset MissingPopluationNotCopied, ignoring'']
   \<and> no_population_warning ''AbsentPopulation''
        \<notin> set (snd (projr (update_node_sets example_node_sets example_id_mapping)))"
  unfolding example_node_sets_result
  by (simp add: update_rule_def example_id_mapping_def no_population_warning_def)

text \<open>
  Claim C7, amended.  When \<open>_update_node_sets\<close> returns, a rule with \<open>node_id\<close> whose
  population is a name absent from the id mapping is dropped from the output, and the loop
  goes on with the state as it was: nothing is logged for the rule, so no warning names it.
  A rule whose population is present is kept, with its \<open>node_id\<close> replaced by a list of new
  ids of the mapping of that population; for a \<open>node_id\<close> list of integers this is the
  ascending list of the new ids of the rows of the mapping whose old id is in the list, so
  that an id of the rule is replaced by its new id and an id that the mapping does not
  have is left out.
\<close>

theorem update_node_sets_absent_population:
  assumes "distinct (map fst node_sets)"
    and "update_node_sets node_sets id_mapping = Inr (ret, log)"
    and "(name, JObj items) \<in> set node_sets"
    and "map_of items ''node_id'' = Some node_id"
    and "map_of items ''population'' = Some (JStr p)"
  shows "(map_of id_mapping p = None \<longrightarrow>
            map_of ret name = None
          \<and> no_population_warning name \<notin> set log
          \<and> (\<forall>state. update_node_sets_step id_mapping state (name, JObj items) = Inr state))
       \<and> (\<forall>mapping. map_of id_mapping p = Some mapping \<longrightarrow>
            (\<exists>ns. map_of ret name
                     = Some (JObj (AList.update ''node_id'' (JList (map JInt ns)) items))
               \<and> sorted ns
               \<and> set ns \<subseteq> set (new_id mapping)
               \<and> (\<forall>ids. node_id = JList (map JInt ids) \<longrightarrow>
                      ns = sort (map snd (filter (\<lambda>row. fst row \<in> set ids) mapping))
                    \<and> set ns = {new. \<exists>old \<in> set ids. (old, new) \<in> set mapping})))"
proof -
  note loop = assms(2) [unfolded update_node_sets_def]
  from node_sets_loop_entry [OF loop assms(1,3)]
  obtain out w where o: "update_rule id_mapping name (JObj items) = Inr (out, w)"
    "map_of ret name = out" by auto
  have lg: "log = concat (map (rule_warnings id_mapping) node_sets)"
    using node_sets_loop_log [OF loop] by simp
  have absent: "map_of ret name = None \<and> no_population_warning name \<notin> set log
      \<and> (\<forall>state. update_node_sets_step id_mapping state (name, JObj items) = Inr state)"
    if none: "map_of id_mapping p = None"
  proof -
    have u: "update_rule id_mapping name (JObj items) = Inr (None, [])"
      by (simp add: update_rule_def assms(4,5) none)
    have "no_population_warning name \<notin> set log"
    proof
      assume "no_population_warning name \<in> set log"
      then obtain n r where nr: "(n, r) \<in> set node_sets"
        "no_population_warning name \<in> set (rule_warnings id_mapping (n, r))"
        unfolding lg by auto
      with rule_warnings_cases [of id_mapping n r] have "n = name"
        by (auto simp: no_population_warning_inj)
      with nr(1) assms(1,3) have "r = JObj items"
        by (meson eq_key_imp_eq_value)
      with nr(2) \<open>n = name\<close> u show False by (simp add: rule_warnings_def)
    qed
    moreover have "map_of ret name = None" using o u by simp
    moreover have "update_node_sets_step id_mapping state (name, JObj items) = Inr state" for state
      by (simp add: update_node_sets_step_def u)
    ultimately show ?thesis by blast
  qed
  have present: "\<exists>ns. map_of ret name
                     = Some (JObj (AList.update ''node_id'' (JList (map JInt ns)) items))
               \<and> sorted ns
               \<and> set ns \<subseteq> set (new_id mapping)
               \<and> (\<forall>ids. node_id = JList (map JInt ids) \<longrightarrow>
                      ns = sort (map snd (filter (\<lambda>row. fst row \<in> set ids) mapping))
                    \<and> set ns = {new. \<exists>old \<in> set ids. (old, new) \<in> set mapping})"
    if some: "map_of id_mapping p = Some mapping" for mapping
  proof -
    from update_rule_present [OF o(1) assms(4,5) some]
    obtain common where c: "index_intersection (df_index mapping) node_id = Inr common"
      and out: "out = Some (JObj (AList.update ''node_id''
              (JList (map JInt (remap_node_ids mapping common))) items))"
      by blast
    have eq: "map_of ret name = Some (JObj (AList.update ''node_id''
              (JList (map JInt (remap_node_ids mapping common))) items))"
      using o(2) out by simp
    note rr = remapped_rule [OF c]
    show ?thesis
      by (rule exI [of _ "remap_node_ids mapping common"])
        (intro conjI, rule eq, rule rr [THEN conjunct1], rule rr [THEN conjunct2, THEN conjunct1],
          rule rr [THEN conjunct2, THEN conjunct2])
  qed
  show ?thesis using absent present by blast
qed

theorem update_node_sets_absent_population_witness:
  "distinct (map fst example_node_sets)
   \<and> (''AbsentPopulation'', JObj [(''population'', JStr ''B''), (''node_id'', JList [JInt 3])])
        \<in> set example_node_sets
   \<and> map_of example_id_mapping ''B'' = None
   \<and> map_of (fst (projr (update_node_sets example_node_sets example_id_mapping)))
        ''AbsentPopulation'' = None
   \<and> no_population_warning ''AbsentPopulation''
        \<notin> set (snd (projr (update_node_sets example_node_sets example_id_mapping)))
   \<and> update_node_sets_step example_id_mapping ([], [])
        (''AbsentPopulation'', JObj [(''population'', JStr ''B''), (''node_id'', JList [JInt 3])])
        = Inr ([], [])
   \<and> map_of example_id_mapping ''A'' = Some [(0, 0), (5, 1), (4, 2), (3, 3)]
   \<and> map_of (fst (projr (update_node_sets example_node_sets example_id_mapping)))
        ''HasPopulationCopied''
        = Some (JObj [(''population'', JStr ''A''),
                      (''node_id'', JList [JInt 1, JInt 2, JInt 3]),
                      (''mtype'', JStr ''foo'')])
   \<and> sort (map snd (filter (\<lambda>row. fst row \<in> set ([3, 4, 5, 1003, 1004, 1005] :: int list))
        ([(0, 0), (5, 1), (4, 2), (3, 3)] :: id_mapping))) = [1, 2, 3]"
proof -
  let ?absent = "[(''population'', JStr ''B''), (''node_id'', JList [JInt 3])]"
  let ?present = "[(''population'', JStr ''A''),
               (''node_id'', JList [JInt 3, JInt 4, JInt 5, JInt 1003, JInt 1004, JInt 1005]),
               (''mtype'', JStr ''foo'')]"
  let ?mapping = "[(0, 0), (5, 1), (4, 2), (3, 3)] :: id_mapping"
  let ?ids = "[3, 4, 5, 1003, 1004, 1005] :: int list"
  note res = example_node_sets_result
  have m1: "(''AbsentPopulation'', JObj ?absent) \<in> set example_node_sets"
    by (simp add: example_node_sets_def)
  have m2: "(''HasPopulationCopied'', JObj ?present) \<in> set example_node_sets"
    by (simp add: example_node_sets_def)
  have b: "map_of example_id_mapping ''B'' = None"
    by (simp add: example_id_mapping_def)
  have a: "map_of example_id_mapping ''A'' = Some ?mapping"
    by (simp add: example_id_mapping_def)
  have n1: "map_of ?absent ''node_id'' = Some (JList [JInt 3])" by simp
  have p1: "map_of ?absent ''population'' = Some (JStr ''B'')" by simp
  have n2: "map_of ?present ''node_id''
      = Some (JList [JInt 3, JInt 4, JInt 5, JInt 1003, JInt 1004, JInt 1005])" by simp
  have p2: "map_of ?present ''population'' = Some (JStr ''A'')" by simp
  note t1 = update_node_sets_absent_population [OF example_node_sets_distinct res m1 n1 p1,
      THEN conjunct1, rule_format, OF b]
  note t2 = update_node_sets_absent_population [OF example_node_sets_distinct res m2 n2 p2,
      THEN conjunct2, rule_format, OF a]
  have c1: "map_of (fst (projr (update_node_sets example_node_sets example_id_mapping)))
        ''AbsentPopulation'' = None"
    unfolding res sum.sel fst_conv by (rule t1 [THEN conjunct1])
  have c2: "no_population_warning ''AbsentPopulation''
        \<notin> set (snd (projr (update_node_sets example_node_sets example_id_mapping)))"
    unfolding res sum.sel snd_conv by (rule t1 [THEN conjunct2, THEN conjunct1])
  have c3: "update_node_sets_step example_id_mapping ([], []) (''AbsentPopulation'', JObj ?absent)
        = Inr ([], [])"
    by (rule t1 [THEN conjunct2, THEN conjunct2, rule_format])
  have lst: "JList [JInt 3, JInt 4, JInt 5, JInt 1003, JInt 1004, JInt 1005]
      = JList (map JInt ?ids)" by simp
  have srt: "sort (map snd (filter (\<lambda>row. fst row \<in> set ?ids) ?mapping)) = [1, 2, 3]"
    by code_simp
  from t2 obtain ns where ns:
    "map_of [(''CopiedNoNodeIds'', JList [JStr ''All'']),
             (''HasPopulationCopied'',
                JObj [(''population'', JStr ''A''),
                      (''node_id'', JList [JInt 1, JInt 2, JInt 3]),
                      (''mtype'', JStr ''foo'')])] ''HasPopulationCopied''
       = Some (JObj (AList.update ''node_id'' (JList (map JInt ns)) ?present))"
    "\<forall>ids. JList [JInt 3, JInt 4, JInt 5, JInt 1003, JInt 1004, JInt 1005]
             = JList (map JInt ids) \<longrightarrow>
         ns = sort (map snd (filter (\<lambda>row. fst row \<in> set ids) ?mapping))
       \<and> set ns = {new. \<exists>old \<in> set ids. (old, new) \<in> set ?mapping}"
    by blast
  from ns(2) [rule_format, OF lst] srt have nseq: "ns = [1, 2, 3]" by simp
  have c4: "map_of (fst (projr (update_node_sets example_node_sets example_id_mapping)))
        ''HasPopulationCopied''
        = Some (JObj [(''population'', JStr ''A''),
                      (''node_id'', JList [JInt 1, JInt 2, JInt 3]),
                      (''mtype'', JStr ''foo'')])"
    unfolding res sum.sel fst_conv using ns(1) unfolding nseq by simp
  show ?thesis
    by (intro conjI) (rule example_node_sets_distinct m1 b c1 c2 c3 a c4 srt)+
qed

text \<open>
  Claim C10.  When \<open>_update_node_sets\<close> returns, a rule that has a \<open>node_id\<close> key and no
  \<open>population\<close> key is not in the output and a warning naming it is logged; a rule
  without a \<open>node_id\<close> key, a dict or not, is in the output as it was; and a rule with
  \<open>node_id\<close> that is kept has its \<open>node_id\<close> replaced by a list of new ids in ascending
  order, which for a \<open>node_id\<close> list of integers is the sorted list of the new ids of the
  rows of the mapping whose old id is in the list, whatever the order of the ids in the
  rule.
\<close>

theorem update_node_sets_drops_passes_sorts:
  assumes "distinct (map fst node_sets)"
    and "update_node_sets node_sets id_mapping = Inr (ret, log)"
    and "(name, rule) \<in> set node_sets"
  shows "(has_key ''node_id'' rule \<and> \<not> has_key ''population'' rule \<longrightarrow>
            map_of ret name = None \<and> no_population_warning name \<in> set log)
       \<and> (\<not> has_key ''node_id'' rule \<longrightarrow> map_of ret name = Some rule)
       \<and> (has_key ''node_id'' rule \<longrightarrow>
            (\<forall>rule'. map_of ret name = Some rule' \<longrightarrow>
               (\<exists>items node_id p mapping ns.
                   rule = JObj items
                 \<and> map_of items ''node_id'' = Some node_id
                 \<and> map_of items ''population'' = Some (JStr p)
                 \<and> map_of id_mapping p = Some mapping
                 \<and> rule' = JObj (AList.update ''node_id'' (JList (map JInt ns)) items)
                 \<and> sorted ns
                 \<and> set ns \<subseteq> set (new_id mapping)
                 \<and> (\<forall>ids. node_id = JList (map JInt ids) \<longrightarrow>
                        ns = sort (map snd (filter (\<lambda>row. fst row \<in> set ids) mapping))
                      \<and> set ns = {new. \<exists>old \<in> set ids. (old, new) \<in> set mapping}))))"
proof -
  note loop = assms(2) [unfolded update_node_sets_def]
  from node_sets_loop_entry [OF loop assms(1,3)]
  obtain out w where o: "update_rule id_mapping name rule = Inr (out, w)"
    "map_of ret name = out" by auto
  have lg: "log = concat (map (rule_warnings id_mapping) node_sets)"
    using node_sets_loop_log [OF loop] by simp
  have dropped: "map_of ret name = None \<and> no_population_warning name \<in> set log"
    if "has_key ''node_id'' rule" "\<not> has_key ''population'' rule"
  proof -
    from that have u: "update_rule id_mapping name rule = Inr (None, [no_population_warning name])"
      by (auto simp: has_key_def update_rule_def split: json.splits)
    then have "rule_warnings id_mapping (name, rule) = [no_population_warning name]"
      by (simp add: rule_warnings_def)
    then have "no_population_warning name \<in> set log"
      unfolding lg using assms(3) by force
    then show ?thesis using o u by simp
  qed
  have passed: "map_of ret name = Some rule" if "\<not> has_key ''node_id'' rule"
  proof -
    from that have "update_rule id_mapping name rule = Inr (Some rule, [])"
      by (auto simp: has_key_def update_rule_def split: json.splits)
    then show ?thesis using o by simp
  qed
  have kept: "\<exists>items node_id p mapping ns.
                   rule = JObj items
                 \<and> map_of items ''node_id'' = Some node_id
                 \<and> map_of items ''population'' = Some (JStr p)
                 \<and> map_of id_mapping p = Some mapping
                 \<and> rule' = JObj (AList.update ''node_id'' (JList (map JInt ns)) items)
                 \<and> sorted ns
                 \<and> set ns \<subseteq> set (new_id mapping)
                 \<and> (\<forall>ids. node_id = JList (map JInt ids) \<longrightarrow>
                        ns = sort (map snd (filter (\<lambda>row. fst row \<in> set ids) mapping))
                      \<and> set ns = {new. \<exists>old \<in> set ids. (old, new) \<in> set mapping})"
    if "has_key ''node_id'' rule" "map_of ret name = Some rule'" for rule'
  proof -
    from that(2) o have u: "update_rule id_mapping name rule = Inr (Some rule', w)" by simp
    from that(1) obtain items node_id where r: "rule = JObj items"
      "map_of items ''node_id'' = Some node_id"
      by (auto simp: has_key_def split: json.splits)
    from u obtain pop where pop: "map_of items ''population'' = Some pop"
      by (cases "map_of items ''population''") (simp_all add: update_rule_def r)
    from u obtain p where p: "pop = JStr p"
      by (cases pop) (simp_all add: update_rule_def r pop)
    from u obtain mapping where mp: "map_of id_mapping p = Some mapping"
      by (cases "map_of id_mapping p") (simp_all add: update_rule_def r pop p)
    from update_rule_present [OF u [unfolded r(1)] r(2) pop [unfolded p] mp]
    obtain common where c: "index_intersection (df_index mapping) node_id = Inr common"
      and out: "Some rule' = Some (JObj (AList.update ''node_id''
              (JList (map JInt (remap_node_ids mapping common))) items))"
      by blast
    from out have eq: "rule' = JObj (AList.update ''node_id''
              (JList (map JInt (remap_node_ids mapping common))) items)" by simp
    note rr = remapped_rule [OF c]
    show ?thesis
      by (intro exI [of _ items] exI [of _ node_id] exI [of _ p] exI [of _ mapping]
          exI [of _ "remap_node_ids mapping common"])
        (intro conjI, rule r(1), rule r(2), rule pop [unfolded p], rule mp, rule eq,
          rule rr [THEN conjunct1], rule rr [THEN conjunct2, THEN conjunct1],
          rule rr [THEN conjunct2, THEN conjunct2])
  qed
  show ?thesis using dropped passed kept by blast
qed

theorem update_node_sets_drops_passes_sorts_witness:
  "distinct (map fst example_node_sets)
   \<and> has_key ''node_id'' (JObj [(''node_id'', JList [JInt 15, JInt 280, JInt 397, JInt 509,
                                    JInt 555, JInt 624, JInt 651, JInt 789])])
   \<and> \<not> has_key ''population'' (JObj [(''node_id'', JList [JInt 15, JInt 280, JInt 397, JInt 509,
                                    JInt 555, JInt 624, JInt 651, JInt 789])])
   \<and> map_of (fst (projr (update_node_sets example_node_sets example_id_mapping)))
        ''MissingPopluationNotCopied'' = None
   \<and> no_population_warning ''MissingPopluationNotCopied''
        \<in> set (snd (projr (update_node_sets example_node_sets example_id_mapping)))
   \<and> \<not> has_key ''node_id'' (JList [JStr ''All''])
   \<and> map_of (fst (projr (update_node_sets example_node_sets example_id_mapping)))
        ''CopiedNoNodeIds'' = Some (JList [JStr ''All''])
   \<and> (\<exists>ns. map_of (fst (projr (update_node_sets example_node_sets example_id_mapping)))
           ''HasPopulationCopied''
           = Some (JObj (AList.update ''node_id'' (JList (map JInt ns))
                     [(''population'', JStr ''A''),
                      (''node_id'', JList [JInt 3, JInt 4, JInt 5, JInt 1003, JInt 1004,
                                           JInt 1005]),
                      (''mtype'', JStr ''foo'')]))
       \<and> sorted ns
       \<and> ns = sort (map snd (filter
                (\<lambda>row. fst row \<in> set ([3, 4, 5, 1003, 1004, 1005] :: int list))
                ([(0, 0), (5, 1), (4, 2), (3, 3)] :: id_mapping)))
       \<and> ns = [1, 2, 3])
   \<and> map (\<lambda>old. the (map_of ([(0, 0), (5, 1), (4, 2), (3, 3)] :: id_mapping) old))
        [3, 4, 5] = [3, 2, 1]"
proof -
  let ?missing = "JObj [(''node_id'', JList [JInt 15, JInt 280, JInt 397, JInt 509,
                                    JInt 555, JInt 624, JInt 651, JInt 789])]"
  let ?items = "[(''population'', JStr ''A''),
               (''node_id'', JList [JInt 3, JInt 4, JInt 5, JInt 1003, JInt 1004, JInt 1005]),
               (''mtype'', JStr ''foo'')]"
  let ?out = "JObj [(''population'', JStr ''A''),
                    (''node_id'', JList [JInt 1, JInt 2, JInt 3]),
                    (''mtype'', JStr ''foo'')]"
  let ?mapping = "[(0, 0), (5, 1), (4, 2), (3, 3)] :: id_mapping"
  let ?ids = "[3, 4, 5, 1003, 1004, 1005] :: int list"
  note res = example_node_sets_result
  note d = example_node_sets_distinct
  have m1: "(''MissingPopluationNotCopied'', ?missing) \<in> set example_node_sets"
    by (simp add: example_node_sets_def)
  have m2: "(''CopiedNoNodeIds'', JList [JStr ''All'']) \<in> set example_node_sets"
    by (simp add: example_node_sets_def)
  have m3: "(''HasPopulationCopied'', JObj ?items) \<in> set example_node_sets"
    by (simp add: example_node_sets_def)
  have k1: "has_key ''node_id'' ?missing" by (simp add: has_key_def)
  have k2: "\<not> has_key ''population'' ?missing" by (simp add: has_key_def)
  have k3: "\<not> has_key ''node_id'' (JList [JStr ''All''])" by (simp add: has_key_def)
  have k4: "has_key ''node_id'' (JObj ?items)" by (simp add: has_key_def)
  note t1 = update_node_sets_drops_passes_sorts [OF d res m1, THEN conjunct1, rule_format,
      OF conjI [OF k1 k2]]
  note t2 = update_node_sets_drops_passes_sorts [OF d res m2, THEN conjunct2, THEN conjunct1,
      rule_format, OF k3]
  have kept: "map_of [(''CopiedNoNodeIds'', JList [JStr ''All'']), (''HasPopulationCopied'', ?out)]
      ''HasPopulationCopied'' = Some ?out" by simp
  note t3 = update_node_sets_drops_passes_sorts [OF d res m3, THEN conjunct2, THEN conjunct2,
      rule_format, OF k4 kept]
  have c1: "map_of (fst (projr (update_node_sets example_node_sets example_id_mapping)))
        ''MissingPopluationNotCopied'' = None"
    unfolding res sum.sel fst_conv by (rule t1 [THEN conjunct1])
  have c2: "no_population_warning ''MissingPopluationNotCopied''
        \<in> set (snd (projr (update_node_sets example_node_sets example_id_mapping)))"
    unfolding res sum.sel snd_conv by (rule t1 [THEN conjunct2])
  have c3: "map_of (fst (projr (update_node_sets example_node_sets example_id_mapping)))
        ''CopiedNoNodeIds'' = Some (JList [JStr ''All''])"
    unfolding res sum.sel fst_conv by (rule t2)
  from t3 obtain items node_id p mapping ns where k:
    "JObj ?items = JObj items"
    "map_of items ''node_id'' = Some node_id"
    "map_of items ''population'' = Some (JStr p)"
    "map_of example_id_mapping p = Some mapping"
    "?out = JObj (AList.update ''node_id'' (JList (map JInt ns)) items)"
    "sorted ns"
    "\<forall>ids. node_id = JList (map JInt ids) \<longrightarrow>
        ns = sort (map snd (filter (\<lambda>row. fst row \<in> set ids) mapping))
      \<and> set ns = {new. \<exists>old \<in> set ids. (old, new) \<in> set mapping}"
    by blast
  from k(1) have items: "items = ?items" by simp
  from k(2) have nid: "node_id = JList (map JInt ?ids)" by (simp add: items)
  from k(3) have "p = ''A''" by (simp add: items)
  with k(4) have mp: "mapping = ?mapping" by (simp add: example_id_mapping_def)
  have srt: "sort (map snd (filter (\<lambda>row. fst row \<in> set ?ids) ?mapping)) = [1, 2, 3]"
    by code_simp
  from k(7) [rule_format, OF nid] have nsf:
    "ns = sort (map snd (filter (\<lambda>row. fst row \<in> set ?ids) ?mapping))"
    by (simp only: mp)
  have c4: "\<exists>ns. map_of (fst (projr (update_node_sets example_node_sets example_id_mapping)))
           ''HasPopulationCopied''
           = Some (JObj (AList.update ''node_id'' (JList (map JInt ns)) ?items))
       \<and> sorted ns
       \<and> ns = sort (map snd (filter (\<lambda>row. fst row \<in> set ?ids) ?mapping))
       \<and> ns = [1, 2, 3]"
    unfolding res sum.sel fst_conv kept
    using k(5) [unfolded items] k(6) nsf srt by (intro exI [of _ ns]) simp
  have c5: "map (\<lambda>old. the (map_of ?mapping old)) [3, 4, 5 :: int] = [3, 2, 1]"
    by simp
  show ?thesis
    by (intro conjI) (rule d k1 k2 c1 c2 k3 c3 c4 c5)+
qed

subsection \<open>Bookkeeping columns\<close>

lemma for_each_invariant:
  assumes "\<And>s x. x \<in> set xs \<Longrightarrow> P s \<Longrightarrow> P (fst (body s x))" and "P s"
  shows "P (fst (for_each body s xs))"
  using assms
proof (induction xs arbitrary: s)
  case Nil
  then show ?case by simp
next
  case (Cons x xs)
  obtain s' r where b: "body s x = (s', r)" by (cases "body s x")
  have s': "P s'" using Cons.prems(1) [of x s] Cons.prems(2) b by simp
  show ?case
  proof (cases r)
    case None
    have "P (fst (for_each body s' xs))"
      by (rule Cons.IH) (use Cons.prems(1) s' in auto)
    then show ?thesis by (simp add: b None)
  next
    case (Some e)
    then show ?thesis using s' by (simp add: b)
  qed
qed

lemma copy_chunk_bookkeeping:
  "edge_type_id (fst (fst (copy_chunk env oe og sm dm s sl))) = edge_type_id (fst s)
   \<and> edge_group_id (fst (fst (copy_chunk env oe og sm dm s sl))) = edge_group_id (fst s)
   \<and> edge_group_index (fst (fst (copy_chunk env oe og sm dm s sl))) = edge_group_index (fst s)"
  by (simp add: copy_chunk_def Let_def split: sum.splits prod.splits)

lemma copy_loop_bookkeeping:
  assumes "edge_type_id (fst s) = None" "edge_group_id (fst s) = None"
    "edge_group_index (fst s) = None"
  shows "edge_type_id (fst (fst (for_each (copy_chunk env oe og sm dm) s slices))) = None
   \<and> edge_group_id (fst (fst (for_each (copy_chunk env oe og sm dm) s slices))) = None
   \<and> edge_group_index (fst (fst (for_each (copy_chunk env oe og sm dm) s slices))) = None"
  by (rule for_each_invariant [where P = "\<lambda>s. edge_type_id (fst s) = None
        \<and> edge_group_id (fst s) = None \<and> edge_group_index (fst s) = None"])
    (simp_all add: copy_chunk_bookkeeping assms)

lemma finalize_edges_fresh:
  assumes "edge_type_id new_edges = None" "edge_group_id new_edges = None"
    "edge_group_index new_edges = None"
  shows "finalize_edges new_edges =
           (new_edges\<lparr>edge_type_id := Some (replicate (length (source_node_id new_edges)) (- 1)),
                      edge_group_id := Some (replicate (length (source_node_id new_edges)) 0),
                      edge_group_index := Some (map int [0..<length (source_node_id new_edges)])\<rparr>,
            None)"
  using assms by (simp add: finalize_edges_def Let_def np_full_def np_arange_def)

lemma copy_rows_finalized:
  assumes "copy_rows env chunk oe og sm dm ne = ((p, g), None)"
    and "edge_type_id ne = None" "edge_group_id ne = None" "edge_group_index ne = None"
  shows "edge_type_id p = Some (replicate (length (source_node_id p)) (- 1))
       \<and> edge_group_id p = Some (replicate (length (source_node_id p)) 0)
       \<and> edge_group_index p = Some (map int [0..<length (source_node_id p)])"
proof -
  from assms(1) obtain g0 slices s where
    loop: "for_each (copy_chunk env oe og sm dm) (ne, g0) slices = (s, None)"
    and fin: "finalize_edges (fst s) = (p, None)"
    by (auto simp: copy_rows_def split: prod.splits option.splits if_splits sum.splits)
  have "edge_type_id (fst s) = None \<and> edge_group_id (fst s) = None
      \<and> edge_group_index (fst s) = None"
    using copy_loop_bookkeeping [of "(ne, g0)" env oe og sm dm slices] assms(2-4) loop by simp
  then have "finalize_edges (fst s) =
           ((fst s)\<lparr>edge_type_id := Some (replicate (length (source_node_id (fst s))) (- 1)),
                      edge_group_id := Some (replicate (length (source_node_id (fst s))) 0),
                      edge_group_index := Some (map int [0..<length (source_node_id (fst s))])\<rparr>,
            None)"
    by (intro finalize_edges_fresh) simp_all
  with fin show ?thesis by auto
qed

text \<open>
  Claim C8.  On an output population that has no bookkeeping column yet,
  \<open>_finalize_edges\<close> sets \<open>edge_type_id\<close> to count copies of -1, \<open>edge_group_id\<close> to count
  copies of 0 and \<open>edge_group_index\<close> to 0..count-1, where count is the number of source
  ids of the population.  When \<open>_copy_edge_attributes\<close> returns, the population that it
  has added to the output file carries the three columns, each as long as its column of
  source ids.
\<close>

theorem finalize_edges_bookkeeping:
  fixes new_edges :: "'v edge_population" and h :: "'v h5file"
  shows "(edge_type_id new_edges = None \<and> edge_group_id new_edges = None
      \<and> edge_group_index new_edges = None \<longrightarrow>
      finalize_edges new_edges =
        (new_edges\<lparr>edge_type_id := Some (replicate (length (source_node_id new_edges)) (- 1)),
                   edge_group_id := Some (replicate (length (source_node_id new_edges)) 0),
                   edge_group_index := Some (map int [0..<length (source_node_id new_edges)])\<rparr>,
         None))
   \<and> (copy_edge_attributes env h5in h5out src_node_name dst_node_name src_edge_name
          dst_edge_name src_mapping dst_mapping h5_read_chunk_size = (h, None) \<longrightarrow>
        (\<exists>ps p. h = Some (ps @ [(dst_edge_name, p)])
           \<and> edge_type_id p = Some (replicate (length (source_node_id p)) (- 1))
           \<and> edge_group_id p = Some (replicate (length (source_node_id p)) 0)
           \<and> edge_group_index p = Some (map int [0..<length (source_node_id p)])))"
proof (intro conjI impI)
  assume "edge_type_id new_edges = None \<and> edge_group_id new_edges = None
      \<and> edge_group_index new_edges = None"
  then show "finalize_edges new_edges =
        (new_edges\<lparr>edge_type_id := Some (replicate (length (source_node_id new_edges)) (- 1)),
                   edge_group_id := Some (replicate (length (source_node_id new_edges)) 0),
                   edge_group_index := Some (map int [0..<length (source_node_id new_edges)])\<rparr>,
         None)"
    by (intro finalize_edges_fresh) simp_all
next
  assume c: "copy_edge_attributes env h5in h5out src_node_name dst_node_name src_edge_name
          dst_edge_name src_mapping dst_mapping h5_read_chunk_size = (h, None)"
  let ?ne = "\<lparr>source_node_id = [], target_node_id = [],
                  source_node_population = src_node_name,
                  target_node_population = dst_node_name,
                  group0 = Some [], edge_type_id = None, edge_group_id = None,
                  edge_group_index = None, indices = None\<rparr> :: 'v edge_population"
  from c obtain chunk oe og ps p g where
    rows: "copy_rows env chunk oe og src_mapping dst_mapping ?ne = ((p, g), None)"
    and h: "h = Some (ps @ [(dst_edge_name, p\<lparr>group0 := Some g\<rparr>)])"
    by (auto simp: copy_edge_attributes_def Let_def
        split: option.splits sum.splits if_splits prod.splits)
  from copy_rows_finalized [OF rows] have
    "edge_type_id p = Some (replicate (length (source_node_id p)) (- 1))
       \<and> edge_group_id p = Some (replicate (length (source_node_id p)) 0)
       \<and> edge_group_index p = Some (map int [0..<length (source_node_id p)])"
    by simp
  then show "\<exists>ps p. h = Some (ps @ [(dst_edge_name, p)])
           \<and> edge_type_id p = Some (replicate (length (source_node_id p)) (- 1))
           \<and> edge_group_id p = Some (replicate (length (source_node_id p)) 0)
           \<and> edge_group_index p = Some (map int [0..<length (source_node_id p)])"
    unfolding h by (intro exI [of _ ps] exI [of _ "p\<lparr>group0 := Some g\<rparr>"]) simp
qed

lemma example_copy_A_B:
  "copy_edge_attributes 500 example_edges_h5 None ''A'' ''B'' ''default'' ''A__B__chemical''
      [(5, 0), (4, 1), (3, 2), (0, 3)] [(1, 0), (2, 1)] (Some 3)
   = (Some [(''A__B__chemical'',
        \<lparr>source_node_id = [3, 3], target_node_id = [0, 0],
         source_node_population = ''A'', target_node_population = ''B'',
         group0 = Some [(''delay'', Dataset ''float32'' [11, 12])],
         edge_type_id = Some [- 1, - 1], edge_group_id = Some [0, 0],
         edge_group_index = Some [0, 1], indices = None\<rparr>)], None)"
  by code_simp

theorem finalize_edges_bookkeeping_witness:
  "finalize_edges
      \<lparr>source_node_id = [3, 3], target_node_id = [0, 0],
       source_node_population = ''A'', target_node_population = ''B'',
       group0 = Some [(''delay'', Dataset ''float32'' [11, 12 :: int])],
       edge_type_id = None, edge_group_id = None, edge_group_index = None, indices = None\<rparr>
     = (\<lparr>source_node_id = [3, 3], target_node_id = [0, 0],
         source_node_population = ''A'', target_node_population = ''B'',
         group0 = Some [(''delay'', Dataset ''float32'' [11, 12])],
         edge_type_id = Some [- 1, - 1], edge_group_id = Some [0, 0],
         edge_group_index = Some [0, 1], indices = None\<rparr>, None)
   \<and> (\<exists>h ps p. copy_edge_attributes 500 example_edges_h5 None ''A'' ''B'' ''default''
            ''A__B__chemical'' [(5, 0), (4, 1), (3, 2), (0, 3)] [(1, 0), (2, 1)] (Some 3) = (h, None)
         \<and> h = Some (ps @ [(''A__B__chemical'', p)])
         \<and> edge_type_id p = Some (replicate (length (source_node_id p)) (- 1))
         \<and> edge_group_id p = Some (replicate (length (source_node_id p)) 0)
         \<and> edge_group_index p = Some (map int [0..<length (source_node_id p)]))"
proof -
  let ?ne = "\<lparr>source_node_id = [3, 3], target_node_id = [0, 0],
       source_node_population = ''A'', target_node_population = ''B'',
       group0 = Some [(''delay'', Dataset ''float32'' [11, 12 :: int])],
       edge_type_id = None, edge_group_id = None, edge_group_index = None, indices = None\<rparr>"
  have fresh: "edge_type_id ?ne = None \<and> edge_group_id ?ne = None \<and> edge_group_index ?ne = None"
    by simp
  note t1 = finalize_edges_bookkeeping [THEN conjunct1, rule_format, OF fresh]
  note t2 = finalize_edges_bookkeeping [THEN conjunct2, rule_format, OF example_copy_A_B]
  have a: "finalize_edges ?ne
     = (\<lparr>source_node_id = [3, 3], target_node_id = [0, 0],
         source_node_population = ''A'', target_node_population = ''B'',
         group0 = Some [(''delay'', Dataset ''float32'' [11, 12])],
         edge_type_id = Some [- 1, - 1], edge_group_id = Some [0, 0],
         edge_group_index = Some [0, 1], indices = None\<rparr>, None)"
    using t1 by (simp add: upt_rec numeral_2_eq_2)
  from t2 example_copy_A_B have b: "\<exists>h ps p.
         copy_edge_attributes 500 example_edges_h5 None ''A'' ''B'' ''default''
            ''A__B__chemical'' [(5, 0), (4, 1), (3, 2), (0, 3)] [(1, 0), (2, 1)] (Some 3) = (h, None)
         \<and> h = Some (ps @ [(''A__B__chemical'', p)])
         \<and> edge_type_id p = Some (replicate (length (source_node_id p)) (- 1))
         \<and> edge_group_id p = Some (replicate (length (source_node_id p)) 0)
         \<and> edge_group_index p = Some (map int [0..<length (source_node_id p)])"
    by blast
  show ?thesis using a b by (rule conjI)
qed

subsection \<open>Structural checks\<close>

lemma group_empty_update:
  "group_empty grp \<Longrightarrow> obj_empty v \<Longrightarrow> group_empty (AList.update k v grp)"
  by (induction grp) (auto simp: group_empty_def)

lemma create_appendable_dataset_empty:
  "group_empty grp \<Longrightarrow> group_empty (fst (create_appendable_dataset grp name dt))"
  by (simp add: create_appendable_dataset_def group_empty_def)

lemma create_group_empty:
  "group_empty grp \<Longrightarrow> group_empty (fst (create_group grp name))"
  by (simp add: create_group_def group_empty_def)

lemma init_dynamics_params_empty:
  "group_empty sub \<Longrightarrow> group_empty (fst (for_each init_dynamics_param sub children))"
  by (rule for_each_invariant [where P = group_empty])
    (auto simp: init_dynamics_param_def create_appendable_dataset_empty split: h5obj.splits)

lemma init_edge_group_item_empty:
  assumes "group_empty grp"
  shows "group_empty (fst (init_edge_group_item grp item))"
proof (cases "snd item")
  case (Dataset dt d)
  then show ?thesis
    using assms by (simp add: init_edge_group_item_def create_appendable_dataset_empty)
next
  case (Group children)
  show ?thesis
  proof (cases "fst item = ''dynamics_params''")
    case False
    then show ?thesis using assms by (simp add: init_edge_group_item_def Group)
  next
    case True
    obtain g r where cg: "create_group grp (fst item) = (g, r)" by (cases "create_group grp (fst item)")
    have g: "group_empty g" using create_group_empty [OF assms, of "fst item"] cg by simp
    obtain sub err where fe: "for_each init_dynamics_param [] children = (sub, err)"
      by (cases "for_each init_dynamics_param [] children")
    have "group_empty sub"
      using init_dynamics_params_empty [of "[]" children] fe by (simp add: group_empty_def)
    then have "obj_empty (Group sub)" by (simp add: group_empty_def)
    then have "group_empty (AList.update (fst item) (Group sub) g)"
      by (rule group_empty_update [OF g])
    then show ?thesis
      using g by (cases r) (simp_all add: init_edge_group_item_def Group True cg [unfolded True] fe)
  qed
qed

lemma init_edge_group_empty:
  "group_empty new_group \<Longrightarrow> group_empty (fst (init_edge_group orig_group new_group))"
  unfolding init_edge_group_def
  by (rule for_each_invariant [where P = group_empty]) (simp_all add: init_edge_group_item_empty)

lemma for_each_append:
  "for_each body s (xs @ ys) =
     (case for_each body s xs of (s', Some e) \<Rightarrow> (s', Some e) | (s', None) \<Rightarrow> for_each body s' ys)"
  by (induction xs arbitrary: s) (auto split: prod.splits option.splits)

lemma for_each_raises:
  assumes "x \<in> set xs" and "\<And>s. snd (body s x) \<noteq> None"
  shows "snd (for_each body s xs) \<noteq> None"
  using assms(1)
proof (induction xs arbitrary: s)
  case Nil
  then show ?case by simp
next
  case (Cons y ys)
  obtain s' r where b: "body s y = (s', r)" by (cases "body s y")
  show ?case
  proof (cases r)
    case (Some e)
    then show ?thesis by (simp add: b)
  next
    case None
    with assms(2) [of s] b have "x \<noteq> y" by auto
    with Cons.prems have "x \<in> set ys" by simp
    from Cons.IH [OF this] show ?thesis by (simp add: b None)
  qed
qed

lemma init_edge_group_item_unexpected:
  "name \<noteq> ''dynamics_params'' \<Longrightarrow>
     init_edge_group_item grp (name, Group children) = (grp, Some ValueError)"
  by (simp add: init_edge_group_item_def)

lemma init_edge_group_raises:
  assumes "(name, Group children) \<in> set orig_group" "name \<noteq> ''dynamics_params''"
  shows "snd (init_edge_group orig_group new_group) \<noteq> None"
  unfolding init_edge_group_def
  by (rule for_each_raises [OF assms(1)]) (simp add: init_edge_group_item_unexpected assms(2))

lemma init_edge_group_first_failure:
  assumes "snd (init_edge_group pre new_group) = None" "name \<noteq> ''dynamics_params''"
  shows "snd (init_edge_group (pre @ (name, Group children) # post) new_group) = Some ValueError"
proof -
  obtain g where "for_each init_edge_group_item new_group pre = (g, None)"
    using assms(1) unfolding init_edge_group_def
    by (cases "for_each init_edge_group_item new_group pre") auto
  then show ?thesis
    by (simp add: init_edge_group_def for_each_append init_edge_group_item_unexpected assms(2))
qed

lemma copy_edge_attributes_unexpected_group:
  fixes h5out :: "'v h5file"
  assumes "h5in = Some populations" "map_of populations src_edge_name = Some orig_edges"
    and "group0 orig_edges = Some orig_group"
    and "(name, Group children) \<in> set orig_group" "name \<noteq> ''dynamics_params''"
    and "dst_edge_name \<notin> fst ` set (case h5out of None \<Rightarrow> [] | Some ps \<Rightarrow> ps)"
  shows "\<exists>e ps p g. copy_edge_attributes env h5in h5out src_node_name dst_node_name src_edge_name
            dst_edge_name src_mapping dst_mapping h5_read_chunk_size
              = (Some (ps @ [(dst_edge_name, p)]), Some e)
          \<and> source_node_id p = [] \<and> target_node_id p = []
          \<and> group0 p = Some g \<and> group_empty g"
proof -
  obtain g r where i: "init_edge_group orig_group [] = (g, r)"
    by (cases "init_edge_group orig_group ([] :: 'v h5group)")
  from init_edge_group_raises [OF assms(4,5), of "[]"] i obtain e where r: "r = Some e"
    by auto
  have g: "group_empty g"
    using init_edge_group_empty [of "[]" orig_group] i by (simp add: group_empty_def)
  have "copy_rows env chunk orig_edges orig_group src_mapping dst_mapping ne = ((ne, g), Some e)"
    for chunk and ne :: "'v edge_population"
    by (simp add: copy_rows_def i r)
  then show ?thesis
    using assms(1-3,6) g
    by (simp add: copy_edge_attributes_def get_unique_group_def Let_def)
qed

text \<open>
  Claim C6.  \<open>_get_unique_population\<close> raises ValueError for a container with no
  population or with more than one, and returns the name of the only one otherwise.
  \<open>_init_edge_group\<close> raises when the edge group holds a group that is not named
  \<open>dynamics_params\<close>, a ValueError when nothing before it raised.  Both checks come
  before any row is copied: with such a group in the input, \<open>_copy_edge_attributes\<close> raises
  and leaves an output population without a source id, a target id or an attribute value;
  with an input file that does not hold exactly one population, \<open>_write_edges\<close> raises
  ValueError at the first pair and leaves only the empty output file of that pair.
\<close>

theorem structural_checks_before_copy:
  fixes parent :: "(string \<times> 'a) list" and orig_group new_group :: "'v h5group"
    and h5out :: "'v h5file" and fs :: "'v filesystem"
  shows "(length parent \<noteq> 1 \<longrightarrow> get_unique_population parent = Inl ValueError)
       \<and> (length parent = 1 \<longrightarrow> get_unique_population parent = Inr (fst (hd parent)))
       \<and> ((name, Group children) \<in> set orig_group \<and> name \<noteq> ''dynamics_params'' \<longrightarrow>
            snd (init_edge_group orig_group new_group) \<noteq> None)
       \<and> (snd (init_edge_group pre new_group) = None \<and> name \<noteq> ''dynamics_params'' \<longrightarrow>
            snd (init_edge_group (pre @ (name, Group children) # post) new_group)
              = Some ValueError)
       \<and> (h5in = Some populations \<and> map_of populations src_edge_name = Some orig_edges
            \<and> group0 orig_edges = Some orig_group
            \<and> (name, Group children) \<in> set orig_group \<and> name \<noteq> ''dynamics_params''
            \<and> dst_edge_name \<notin> fst ` set (case h5out of None \<Rightarrow> [] | Some ps \<Rightarrow> ps) \<longrightarrow>
            (\<exists>e ps p g. copy_edge_attributes env h5in h5out src_node_name dst_node_name
                  src_edge_name dst_edge_name src_mapping dst_mapping h5_read_chunk_size
                    = (Some (ps @ [(dst_edge_name, p)]), Some e)
               \<and> source_node_id p = [] \<and> target_node_id p = []
               \<and> group0 p = Some g \<and> group_empty g))
       \<and> (map_of fs edges_path = Some (Some populations) \<and> length populations \<noteq> 1
            \<and> path_join output (get_edge_file_name (get_population_name k k)) \<noteq> edges_path \<longrightarrow>
            write_edges env output edges_path ((k, m) # id_mapping) h5_read_chunk_size
                expect_to_use_all_edges fs
              = (AList.update (path_join output (get_edge_file_name (get_population_name k k)))
                   None fs,
                 Some ValueError))"
proof -
  have a: "length parent \<noteq> 1 \<longrightarrow> get_unique_population parent = Inl ValueError"
    by (simp add: get_unique_population_def)
  have b: "length parent = 1 \<longrightarrow> get_unique_population parent = Inr (fst (hd parent))"
    by (cases parent) (simp_all add: get_unique_population_def)
  have c: "(name, Group children) \<in> set orig_group \<and> name \<noteq> ''dynamics_params'' \<longrightarrow>
            snd (init_edge_group orig_group new_group) \<noteq> None"
    using init_edge_group_raises by blast
  have d: "snd (init_edge_group pre new_group) = None \<and> name \<noteq> ''dynamics_params'' \<longrightarrow>
            snd (init_edge_group (pre @ (name, Group children) # post) new_group)
              = Some ValueError"
    using init_edge_group_first_failure by blast
  have e: "h5in = Some populations \<and> map_of populations src_edge_name = Some orig_edges
            \<and> group0 orig_edges = Some orig_group
            \<and> (name, Group children) \<in> set orig_group \<and> name \<noteq> ''dynamics_params''
            \<and> dst_edge_name \<notin> fst ` set (case h5out of None \<Rightarrow> [] | Some ps \<Rightarrow> ps) \<longrightarrow>
            (\<exists>e ps p g. copy_edge_attributes env h5in h5out src_node_name dst_node_name
                  src_edge_name dst_edge_name src_mapping dst_mapping h5_read_chunk_size
                    = (Some (ps @ [(dst_edge_name, p)]), Some e)
               \<and> source_node_id p = [] \<and> target_node_id p = []
               \<and> group0 p = Some g \<and> group_empty g)"
    using copy_edge_attributes_unexpected_group by blast
  have f: "write_edges env output edges_path ((k, m) # id_mapping) h5_read_chunk_size
                expect_to_use_all_edges fs
              = (AList.update (path_join output (get_edge_file_name (get_population_name k k)))
                   None fs,
                 Some ValueError)"
    if "map_of fs edges_path = Some (Some populations)" "length populations \<noteq> 1"
      "path_join output (get_edge_file_name (get_population_name k k)) \<noteq> edges_path"
  proof -
    have "write_edges_pair env output edges_path (Some populations) ((k, m) # id_mapping)
        h5_read_chunk_size (fs, 0) (k, k)
      = ((AList.update (path_join output (get_edge_file_name (get_population_name k k))) None fs,
          0), Some ValueError)"
      using that(2,3) by (simp add: write_edges_pair_def Let_def get_unique_population_def)
    then show ?thesis
      by (simp add: write_edges_def that(1))
  qed
  show ?thesis using a b c d e f by blast
qed

theorem structural_checks_before_copy_witness:
  "get_unique_population ([] :: (string \<times> unit) list) = Inl ValueError
   \<and> get_unique_population [(''a'', ()), (''b'', ())] = Inl ValueError
   \<and> get_unique_population [(''default'', ())] = Inr ''default''
   \<and> snd (init_edge_group [(''delay'', Dataset ''float32'' [1 :: int]), (''extra'', Group [])] [])
        \<noteq> None
   \<and> snd (init_edge_group [(''delay'', Dataset ''float32'' [1 :: int]), (''extra'', Group [])] [])
        = Some ValueError
   \<and> (\<exists>e ps p g.
         copy_edge_attributes 500
           (Some [(''default'',
              \<lparr>source_node_id = [0], target_node_id = [0],
               source_node_population = ''default'', target_node_population = ''default'',
               group0 = Some [(''delay'', Dataset ''float32'' [1 :: int]), (''extra'', Group [])],
               edge_type_id = None, edge_group_id = None, edge_group_index = None,
               indices = None\<rparr>)])
           None ''A'' ''A'' ''default'' ''A'' [(0, 0)] [(0, 0)] None
           = (Some (ps @ [(''A'', p)]), Some e)
       \<and> source_node_id p = [] \<and> target_node_id p = [] \<and> group0 p = Some g \<and> group_empty g)
   \<and> write_edges 500 ''out'' ''edges.h5'' [(''A'', [(0, 0)])] None True
        [(''edges.h5'', Some ([] :: (string \<times> int edge_population) list))]
        = ([(''edges.h5'', Some []), (''out/edges_A.h5'', None)], Some ValueError)"
proof -
  let ?grp = "[(''delay'', Dataset ''float32'' [1 :: int]), (''extra'', Group [])]"
  let ?pop = "\<lparr>source_node_id = [0], target_node_id = [0],
               source_node_population = ''default'', target_node_population = ''default'',
               group0 = Some ?grp,
               edge_type_id = None, edge_group_id = None, edge_group_index = None,
               indices = None\<rparr>"
  let ?fs = "[(''edges.h5'', Some ([] :: (string \<times> int edge_population) list))]"
  have l0: "length ([] :: (string \<times> unit) list) \<noteq> 1" by simp
  have l2: "length [(''a'', ()), (''b'', ())] \<noteq> 1" by simp
  have l1: "length [(''default'', ())] = 1" by simp
  note a0 = structural_checks_before_copy [THEN conjunct1, rule_format, OF l0]
  note a2 = structural_checks_before_copy [THEN conjunct1, rule_format, OF l2]
  have a1: "get_unique_population [(''default'', ())] = Inr ''default''"
    using structural_checks_before_copy [THEN conjunct2, THEN conjunct1, rule_format, OF l1]
    by simp
  have mem: "(''extra'', Group []) \<in> set ?grp \<and> ''extra'' \<noteq> ''dynamics_params''" by simp
  note b = structural_checks_before_copy [THEN conjunct2, THEN conjunct2, THEN conjunct1,
      rule_format, OF mem, of "[]"]
  have pre: "snd (init_edge_group [(''delay'', Dataset ''float32'' [1 :: int])] []) = None
      \<and> ''extra'' \<noteq> ''dynamics_params''"
    by (simp add: init_edge_group_def init_edge_group_item_def create_appendable_dataset_def)
  have c: "snd (init_edge_group ?grp []) = Some ValueError"
    using structural_checks_before_copy [THEN conjunct2, THEN conjunct2, THEN conjunct2,
      THEN conjunct1, rule_format, OF pre, of "[]" "[]"]
    by simp
  have hyp: "Some [(''default'', ?pop)] = Some [(''default'', ?pop)]
      \<and> map_of [(''default'', ?pop)] ''default'' = Some ?pop
      \<and> group0 ?pop = Some ?grp
      \<and> (''extra'', Group []) \<in> set ?grp \<and> ''extra'' \<noteq> ''dynamics_params''
      \<and> ''A'' \<notin> fst ` set (case (None :: int h5file) of None \<Rightarrow> [] | Some ps \<Rightarrow> ps)"
    by simp
  note d = structural_checks_before_copy [THEN conjunct2, THEN conjunct2, THEN conjunct2,
      THEN conjunct2, THEN conjunct1, rule_format, OF hyp,
      of 500 "''A''" "''A''" "[(0, 0)]" "[(0, 0)]" None]
  have hyp2: "map_of ?fs ''edges.h5'' = Some (Some [])
      \<and> length ([] :: (string \<times> int edge_population) list) \<noteq> 1
      \<and> path_join ''out'' (get_edge_file_name (get_population_name ''A'' ''A'')) \<noteq> ''edges.h5''"
    by (simp add: path_join_def get_edge_file_name_def get_population_name_def
        get_population_name_typed_def)
  have e: "write_edges 500 ''out'' ''edges.h5'' [(''A'', [(0, 0)])] None True ?fs
        = ([(''edges.h5'', Some []), (''out/edges_A.h5'', None)], Some ValueError)"
    using structural_checks_before_copy [THEN conjunct2, THEN conjunct2, THEN conjunct2,
      THEN conjunct2, THEN conjunct2, rule_format, OF hyp2, of 500 "[(0, 0)]" "[]" None True]
    by (simp add: path_join_def get_edge_file_name_def get_population_name_def
        get_population_name_typed_def)
  show ?thesis
    by (intro conjI) (rule a0 a2 a1 b c d e)+
qed

subsection \<open>Empty outputs\<close>

lemma get_node_counts_Inr:
  assumes "get_node_counts h name = Inr (edge_count, sg, tg)"
  obtains ps p where "h = Some ps" "map_of ps name = Some p"
    "edge_count = length (source_node_id p)"
  using assms
  by (auto simp: get_node_counts_def Let_def split: option.splits if_splits)

lemma write_indexes_present:
  assumes "map_of ps name = Some p"
  shows "write_indexes (AList.update path (Some ps) fs) path name sg tg =
           (AList.update path (Some (AList.update name (p\<lparr>indices := Some (sg, tg)\<rparr>) ps)) fs,
            None)"
  by (simp add: write_indexes_def update_conv' assms)

lemma write_edges_pair_result:
  fixes fs :: "'v filesystem"
  assumes fl: "edge_file_name = path_join output (get_edge_file_name (get_population_name src dst))"
      "edge_file_name \<noteq> edges_path"
    and inp: "h5in = Some populations" "get_unique_population populations = Inr src_edge_name"
      "map_of id_mapping src = Some src_mapping" "map_of id_mapping dst = Some dst_mapping"
    and copy: "copy_edge_attributes env h5in None src dst src_edge_name (get_population_name src dst)
        src_mapping dst_mapping chunk = (h, None)"
    and counts: "get_node_counts h (get_population_name src dst) = Inr (edge_count, sg, tg)"
  shows "(edge_count = 0 \<longrightarrow>
           write_edges_pair env output edges_path h5in id_mapping chunk (fs, written) (src, dst)
             = ((AList.delete edge_file_name fs, written), None))
       \<and> (0 < edge_count \<longrightarrow>
           (\<exists>ps p. h = Some ps \<and> map_of ps (get_population_name src dst) = Some p
              \<and> write_edges_pair env output edges_path h5in id_mapping chunk (fs, written) (src, dst)
                 = ((AList.update edge_file_name
                       (Some (AList.update (get_population_name src dst)
                          (p\<lparr>indices := Some (sg, tg)\<rparr>) ps)) fs,
                     written + int edge_count), None)))"
proof -
  from counts obtain ps p where h: "h = Some ps" "map_of ps (get_population_name src dst) = Some p"
    by (rule get_node_counts_Inr)
  have zero: "write_edges_pair env output edges_path h5in id_mapping chunk (fs, written) (src, dst)
             = ((AList.delete edge_file_name fs, written), None)" if "edge_count = 0"
    using fl(2) that copy counts
    by (simp add: write_edges_pair_def Let_def fl(1) [symmetric] inp delete_update_same)
  have pos: "write_edges_pair env output edges_path h5in id_mapping chunk (fs, written) (src, dst)
                 = ((AList.update edge_file_name
                       (Some (AList.update (get_population_name src dst)
                          (p\<lparr>indices := Some (sg, tg)\<rparr>) ps)) fs,
                     written + int edge_count), None)" if "0 < edge_count"
    using fl(2) that copy counts
    by (simp add: write_edges_pair_def Let_def fl(1) [symmetric] inp h
        write_indexes_present [OF h(2)])
  show ?thesis using zero pos h by blast
qed

lemma write_subcircuit_edges_result:
  fixes fs :: "'v filesystem"
  assumes inp: "map_of fs edges_path = Some h5in" "output_path \<noteq> edges_path"
    and copy: "copy_edge_attributes env h5in
        (case map_of fs output_path of None \<Rightarrow> None | Some f \<Rightarrow> f)
        src dst src_edge_name dst_edge_name src_mapping dst_mapping None = (h, None)"
    and counts: "get_node_counts h dst_edge_name = Inr (edge_count, sg, tg)"
  shows "\<exists>ps p. h = Some ps \<and> map_of ps dst_edge_name = Some p
       \<and> (edge_count = 0 \<and> AList.delete dst_edge_name ps = [] \<longrightarrow>
            write_subcircuit_edges env output_path edges_path src dst src_edge_name dst_edge_name
                src_mapping dst_mapping fs
              = (AList.delete output_path fs, Inr DELETED_EMPTY_EDGES_FILE))
       \<and> (edge_count = 0 \<and> AList.delete dst_edge_name ps \<noteq> [] \<longrightarrow>
            write_subcircuit_edges env output_path edges_path src dst src_edge_name dst_edge_name
                src_mapping dst_mapping fs
              = (AList.update output_path (Some (AList.delete dst_edge_name ps)) fs,
                 Inr output_path))
       \<and> (0 < edge_count \<longrightarrow>
            write_subcircuit_edges env output_path edges_path src dst src_edge_name dst_edge_name
                src_mapping dst_mapping fs
              = (AList.update output_path
                   (Some (AList.update dst_edge_name (p\<lparr>indices := Some (sg, tg)\<rparr>) ps)) fs,
                 Inr output_path))"
proof -
  from counts obtain ps p where h: "h = Some ps" "map_of ps dst_edge_name = Some p"
    by (rule get_node_counts_Inr)
  have a: "write_subcircuit_edges env output_path edges_path src dst src_edge_name dst_edge_name
                src_mapping dst_mapping fs
              = (AList.delete output_path fs, Inr DELETED_EMPTY_EDGES_FILE)"
    if "edge_count = 0" "AList.delete dst_edge_name ps = []"
    using that inp(2) copy counts
    by (simp add: write_subcircuit_edges_def inp(1) Let_def h delete_update_same)
  have b: "write_subcircuit_edges env output_path edges_path src dst src_edge_name dst_edge_name
                src_mapping dst_mapping fs
              = (AList.update output_path (Some (AList.delete dst_edge_name ps)) fs,
                 Inr output_path)"
    if "edge_count = 0" "AList.delete dst_edge_name ps \<noteq> []"
    using that inp(2) copy counts
    by (simp add: write_subcircuit_edges_def inp(1) Let_def h)
  have c: "write_subcircuit_edges env output_path edges_path src dst src_edge_name dst_edge_name
                src_mapping dst_mapping fs
              = (AList.update output_path
                   (Some (AList.update dst_edge_name (p\<lparr>indices := Some (sg, tg)\<rparr>) ps)) fs,
                 Inr output_path)"
    if "0 < edge_count"
    using that inp(2) copy counts
    by (simp add: write_subcircuit_edges_def inp(1) Let_def h write_indexes_present [OF h(2)])
  show ?thesis using a b c h by blast
qed

text \<open>
  Claim C4.  For a pair of populations whose copy succeeds: when no edge was copied,
  \<open>_write_edges\<close> unlinks the edge file of the pair and writes no index, and
  \<open>_write_subcircuit_edges\<close> deletes the empty population from the output file, unlinks
  the file and returns \<open>DELETED_EMPTY_EDGES_FILE\<close> when no population is left in it, and
  keeps the file and returns its path when one is left; when edges were copied, both write
  the indices of the population, for the node counts of \<open>_get_node_counts\<close>.
\<close>

theorem empty_edge_outputs_removed:
  fixes fs :: "'v filesystem"
  shows "(edge_file_name = path_join output (get_edge_file_name (get_population_name src dst))
          \<and> edge_file_name \<noteq> edges_path
          \<and> h5in = Some populations \<and> get_unique_population populations = Inr src_edge_name
          \<and> map_of id_mapping src = Some src_mapping \<and> map_of id_mapping dst = Some dst_mapping
          \<and> copy_edge_attributes env h5in None src dst src_edge_name (get_population_name src dst)
                src_mapping dst_mapping chunk = (h, None)
          \<and> get_node_counts h (get_population_name src dst) = Inr (edge_count, sg, tg) \<longrightarrow>
            (edge_count = 0 \<longrightarrow>
               (\<exists>fs'. write_edges_pair env output edges_path h5in id_mapping chunk (fs, written)
                        (src, dst) = ((fs', written), None)
                  \<and> map_of fs' edge_file_name = None))
          \<and> (0 < edge_count \<longrightarrow>
               (\<exists>fs' ps p. write_edges_pair env output edges_path h5in id_mapping chunk
                        (fs, written) (src, dst) = ((fs', written + int edge_count), None)
                  \<and> map_of fs' edge_file_name = Some (Some ps)
                  \<and> map_of ps (get_population_name src dst) = Some p
                  \<and> indices p = Some (sg, tg))))
       \<and> (map_of fs edges_path = Some h5in' \<and> output_path \<noteq> edges_path
          \<and> copy_edge_attributes env h5in'
                (case map_of fs output_path of None \<Rightarrow> None | Some f \<Rightarrow> f)
                src dst src_edge_name' dst_edge_name src_mapping dst_mapping None = (h', None)
          \<and> get_node_counts h' dst_edge_name = Inr (edge_count', sg', tg') \<longrightarrow>
            (\<exists>ps. h' = Some ps
              \<and> (edge_count' = 0 \<and> AList.delete dst_edge_name ps = [] \<longrightarrow>
                   (\<exists>fs'. write_subcircuit_edges env output_path edges_path src dst
                        src_edge_name' dst_edge_name src_mapping dst_mapping fs
                          = (fs', Inr DELETED_EMPTY_EDGES_FILE)
                      \<and> map_of fs' output_path = None))
              \<and> (edge_count' = 0 \<and> AList.delete dst_edge_name ps \<noteq> [] \<longrightarrow>
                   (\<exists>fs' ps'. write_subcircuit_edges env output_path edges_path src dst
                        src_edge_name' dst_edge_name src_mapping dst_mapping fs
                          = (fs', Inr output_path)
                      \<and> map_of fs' output_path = Some (Some ps') \<and> ps' \<noteq> []
                      \<and> map_of ps' dst_edge_name = None))
              \<and> (0 < edge_count' \<longrightarrow>
                   (\<exists>fs' ps' p. write_subcircuit_edges env output_path edges_path src dst
                        src_edge_name' dst_edge_name src_mapping dst_mapping fs
                          = (fs', Inr output_path)
                      \<and> map_of fs' output_path = Some (Some ps')
                      \<and> map_of ps' dst_edge_name = Some p
                      \<and> indices p = Some (sg', tg')))))"
proof (intro conjI impI; (elim conjE)?)
  assume hyps: "edge_file_name = path_join output (get_edge_file_name (get_population_name src dst))"
    "edge_file_name \<noteq> edges_path" "h5in = Some populations"
    "get_unique_population populations = Inr src_edge_name"
    "map_of id_mapping src = Some src_mapping" "map_of id_mapping dst = Some dst_mapping"
    "copy_edge_attributes env h5in None src dst src_edge_name (get_population_name src dst)
                src_mapping dst_mapping chunk = (h, None)"
    "get_node_counts h (get_population_name src dst) = Inr (edge_count, sg, tg)"
  note r = write_edges_pair_result [OF hyps, of fs written]
  {
    assume "edge_count = 0"
    with r have "write_edges_pair env output edges_path h5in id_mapping chunk (fs, written)
        (src, dst) = ((AList.delete edge_file_name fs, written), None)" by blast
    moreover have "map_of (AList.delete edge_file_name fs) edge_file_name = None"
      by (simp add: delete_conv')
    ultimately show "\<exists>fs'. write_edges_pair env output edges_path h5in id_mapping chunk
          (fs, written) (src, dst) = ((fs', written), None)
        \<and> map_of fs' edge_file_name = None" by blast
  }
  {
    assume "0 < edge_count"
    with r obtain ps p where p: "map_of ps (get_population_name src dst) = Some p"
      "write_edges_pair env output edges_path h5in id_mapping chunk (fs, written) (src, dst)
          = ((AList.update edge_file_name
                 (Some (AList.update (get_population_name src dst)
                    (p\<lparr>indices := Some (sg, tg)\<rparr>) ps)) fs,
               written + int edge_count), None)" by blast
    show "\<exists>fs' ps p. write_edges_pair env output edges_path h5in id_mapping chunk
                        (fs, written) (src, dst) = ((fs', written + int edge_count), None)
                  \<and> map_of fs' edge_file_name = Some (Some ps)
                  \<and> map_of ps (get_population_name src dst) = Some p
                  \<and> indices p = Some (sg, tg)"
      by (intro exI [of _ "AList.update edge_file_name
                 (Some (AList.update (get_population_name src dst)
                    (p\<lparr>indices := Some (sg, tg)\<rparr>) ps)) fs"]
          exI [of _ "AList.update (get_population_name src dst)
                    (p\<lparr>indices := Some (sg, tg)\<rparr>) ps"]
          exI [of _ "p\<lparr>indices := Some (sg, tg)\<rparr>"])
        (simp add: p(2) update_conv')
  }
next
  assume hyps: "map_of fs edges_path = Some h5in'" "output_path \<noteq> edges_path"
    "copy_edge_attributes env h5in'
                (case map_of fs output_path of None \<Rightarrow> None | Some f \<Rightarrow> f)
                src dst src_edge_name' dst_edge_name src_mapping dst_mapping None = (h', None)"
    "get_node_counts h' dst_edge_name = Inr (edge_count', sg', tg')"
  from write_subcircuit_edges_result [OF hyps] obtain ps p where
    h: "h' = Some ps" "map_of ps dst_edge_name = Some p"
    and a: "edge_count' = 0 \<and> AList.delete dst_edge_name ps = [] \<longrightarrow>
            write_subcircuit_edges env output_path edges_path src dst src_edge_name' dst_edge_name
                src_mapping dst_mapping fs
              = (AList.delete output_path fs, Inr DELETED_EMPTY_EDGES_FILE)"
    and b: "edge_count' = 0 \<and> AList.delete dst_edge_name ps \<noteq> [] \<longrightarrow>
            write_subcircuit_edges env output_path edges_path src dst src_edge_name' dst_edge_name
                src_mapping dst_mapping fs
              = (AList.update output_path (Some (AList.delete dst_edge_name ps)) fs,
                 Inr output_path)"
    and c: "0 < edge_count' \<longrightarrow>
            write_subcircuit_edges env output_path edges_path src dst src_edge_name' dst_edge_name
                src_mapping dst_mapping fs
              = (AList.update output_path
                   (Some (AList.update dst_edge_name (p\<lparr>indices := Some (sg', tg')\<rparr>) ps)) fs,
                 Inr output_path)"
    by blast
  have a': "\<exists>fs'. write_subcircuit_edges env output_path edges_path src dst
                        src_edge_name' dst_edge_name src_mapping dst_mapping fs
                          = (fs', Inr DELETED_EMPTY_EDGES_FILE)
                      \<and> map_of fs' output_path = None"
    if "edge_count' = 0 \<and> AList.delete dst_edge_name ps = []"
    using a that by (intro exI [of _ "AList.delete output_path fs"]) (simp add: delete_conv')
  have b': "\<exists>fs' ps'. write_subcircuit_edges env output_path edges_path src dst
                        src_edge_name' dst_edge_name src_mapping dst_mapping fs
                          = (fs', Inr output_path)
                      \<and> map_of fs' output_path = Some (Some ps') \<and> ps' \<noteq> []
                      \<and> map_of ps' dst_edge_name = None"
    if "edge_count' = 0 \<and> AList.delete dst_edge_name ps \<noteq> []"
    using b that
    by (intro exI [of _ "AList.update output_path (Some (AList.delete dst_edge_name ps)) fs"]
        exI [of _ "AList.delete dst_edge_name ps"]) (simp add: update_conv' delete_conv')
  have c': "\<exists>fs' ps' p. write_subcircuit_edges env output_path edges_path src dst
                        src_edge_name' dst_edge_name src_mapping dst_mapping fs
                          = (fs', Inr output_path)
                      \<and> map_of fs' output_path = Some (Some ps')
                      \<and> map_of ps' dst_edge_name = Some p
                      \<and> indices p = Some (sg', tg')"
    if "0 < edge_count'"
    using c that
    by (intro exI [of _ "AList.update output_path
                   (Some (AList.update dst_edge_name (p\<lparr>indices := Some (sg', tg')\<rparr>) ps)) fs"]
        exI [of _ "AList.update dst_edge_name (p\<lparr>indices := Some (sg', tg')\<rparr>) ps"]
        exI [of _ "p\<lparr>indices := Some (sg', tg')\<rparr>"]) (simp add: update_conv')
  show "\<exists>ps. h' = Some ps
              \<and> (edge_count' = 0 \<and> AList.delete dst_edge_name ps = [] \<longrightarrow>
                   (\<exists>fs'. write_subcircuit_edges env output_path edges_path src dst
                        src_edge_name' dst_edge_name src_mapping dst_mapping fs
                          = (fs', Inr DELETED_EMPTY_EDGES_FILE)
                      \<and> map_of fs' output_path = None))
              \<and> (edge_count' = 0 \<and> AList.delete dst_edge_name ps \<noteq> [] \<longrightarrow>
                   (\<exists>fs' ps'. write_subcircuit_edges env output_path edges_path src dst
                        src_edge_name' dst_edge_name src_mapping dst_mapping fs
                          = (fs', Inr output_path)
                      \<and> map_of fs' output_path = Some (Some ps') \<and> ps' \<noteq> []
                      \<and> map_of ps' dst_edge_name = None))
              \<and> (0 < edge_count' \<longrightarrow>
                   (\<exists>fs' ps' p. write_subcircuit_edges env output_path edges_path src dst
                        src_edge_name' dst_edge_name src_mapping dst_mapping fs
                          = (fs', Inr output_path)
                      \<and> map_of fs' output_path = Some (Some ps')
                      \<and> map_of ps' dst_edge_name = Some p
                      \<and> indices p = Some (sg', tg')))"
    using h(1) a' b' c' by blast
qed

theorem empty_edge_outputs_removed_witness:
  "(\<exists>fs'. write_edges_pair 500 ''out'' ''edges.h5'' example_edges_h5 example_edge_id_mapping
              (Some 3) (example_fs, 0) (''A'', ''A'') = ((fs', 0), None)
        \<and> map_of fs' ''out/edges_A.h5'' = None)
   \<and> (\<exists>fs' ps p. write_edges_pair 500 ''out'' ''edges.h5'' example_edges_h5
              example_edge_id_mapping (Some 3) (example_fs, 0) (''A'', ''B'')
                = ((fs', 0 + int 2), None)
        \<and> map_of fs' ''out/edges_A__B__chemical.h5'' = Some (Some ps)
        \<and> map_of ps (get_population_name ''A'' ''B'') = Some p
        \<and> indices p = Some (4, 1))
   \<and> (\<exists>fs'. write_subcircuit_edges 3 ''out/e.h5'' ''edges.h5'' ''default'' ''default''
              ''default'' ''default'' [(5, 0)] [(1, 0)] example_fs
                = (fs', Inr DELETED_EMPTY_EDGES_FILE)
        \<and> map_of fs' ''out/e.h5'' = None)
   \<and> (\<exists>fs' ps'. write_subcircuit_edges 3 ''out/e.h5'' ''edges.h5'' ''default'' ''default''
              ''default'' ''external_default'' [(5, 0)] [(1, 0)] example_fs_written
                = (fs', Inr ''out/e.h5'')
        \<and> map_of fs' ''out/e.h5'' = Some (Some ps') \<and> ps' \<noteq> []
        \<and> map_of ps' ''external_default'' = None)
   \<and> (\<exists>fs' ps' p. write_subcircuit_edges 3 ''out/e.h5'' ''edges.h5'' ''default'' ''default''
              ''default'' ''default'' [(0, 0)] [(1, 0)] example_fs
                = (fs', Inr ''out/e.h5'')
        \<and> map_of fs' ''out/e.h5'' = Some (Some ps')
        \<and> map_of ps' ''default'' = Some p
        \<and> indices p = Some (1, 1))"
proof -
  let ?mA = "[(5, 0), (4, 1), (3, 2), (0, 3)] :: id_mapping"
  let ?mB = "[(1, 0), (2, 1)] :: id_mapping"
  let ?hAA = "fst (copy_edge_attributes 500 example_edges_h5 None ''A'' ''A'' ''default''
      (get_population_name ''A'' ''A'') ?mA ?mA (Some 3))"
  let ?hAB = "fst (copy_edge_attributes 500 example_edges_h5 None ''A'' ''B'' ''default''
      (get_population_name ''A'' ''B'') ?mA ?mB (Some 3))"
  have pairAA: "''out/edges_A.h5''
        = path_join ''out'' (get_edge_file_name (get_population_name ''A'' ''A''))
      \<and> ''out/edges_A.h5'' \<noteq> ''edges.h5''
      \<and> example_edges_h5 = Some (the example_edges_h5)
      \<and> get_unique_population (the example_edges_h5) = Inr ''default''
      \<and> map_of example_edge_id_mapping ''A'' = Some ?mA
      \<and> map_of example_edge_id_mapping ''A'' = Some ?mA
      \<and> copy_edge_attributes 500 example_edges_h5 None ''A'' ''A'' ''default''
            (get_population_name ''A'' ''A'') ?mA ?mA (Some 3) = (?hAA, None)
      \<and> get_node_counts ?hAA (get_population_name ''A'' ''A'') = Inr (0, 0, 0)"
    by code_simp
  have pairAB: "''out/edges_A__B__chemical.h5''
        = path_join ''out'' (get_edge_file_name (get_population_name ''A'' ''B''))
      \<and> ''out/edges_A__B__chemical.h5'' \<noteq> ''edges.h5''
      \<and> example_edges_h5 = Some (the example_edges_h5)
      \<and> get_unique_population (the example_edges_h5) = Inr ''default''
      \<and> map_of example_edge_id_mapping ''A'' = Some ?mA
      \<and> map_of example_edge_id_mapping ''B'' = Some ?mB
      \<and> copy_edge_attributes 500 example_edges_h5 None ''A'' ''B'' ''default''
            (get_population_name ''A'' ''B'') ?mA ?mB (Some 3) = (?hAB, None)
      \<and> get_node_counts ?hAB (get_population_name ''A'' ''B'') = Inr (2, 4, 1)"
    by code_simp
  have z: "(0 :: nat) = 0" and p2: "(0 :: nat) < 2" by simp_all
  note a = empty_edge_outputs_removed [THEN conjunct1, rule_format, OF pairAA,
      THEN conjunct1, rule_format, OF z, of example_fs 0]
  note b = empty_edge_outputs_removed [THEN conjunct1, rule_format, OF pairAB,
      THEN conjunct2, rule_format, OF p2, of example_fs 0]
  let ?h0 = "fst (copy_edge_attributes 3 example_edges_h5
        (case map_of example_fs ''out/e.h5'' of None \<Rightarrow> None | Some f \<Rightarrow> f)
        ''default'' ''default'' ''default'' ''default'' [(5, 0)] [(1, 0)] None)"
  let ?h1 = "fst (copy_edge_attributes 3 example_edges_h5
        (case map_of example_fs_written ''out/e.h5'' of None \<Rightarrow> None | Some f \<Rightarrow> f)
        ''default'' ''default'' ''default'' ''external_default'' [(5, 0)] [(1, 0)] None)"
  let ?h2 = "fst (copy_edge_attributes 3 example_edges_h5
        (case map_of example_fs ''out/e.h5'' of None \<Rightarrow> None | Some f \<Rightarrow> f)
        ''default'' ''default'' ''default'' ''default'' [(0, 0)] [(1, 0)] None)"
  have sub0: "map_of example_fs ''edges.h5'' = Some example_edges_h5
      \<and> ''out/e.h5'' \<noteq> ''edges.h5''
      \<and> copy_edge_attributes 3 example_edges_h5
        (case map_of example_fs ''out/e.h5'' of None \<Rightarrow> None | Some f \<Rightarrow> f)
        ''default'' ''default'' ''default'' ''default'' [(5, 0)] [(1, 0)] None = (?h0, None)
      \<and> get_node_counts ?h0 ''default'' = Inr (0, 0, 0)"
    by code_simp
  have sub1: "map_of example_fs_written ''edges.h5'' = Some example_edges_h5
      \<and> ''out/e.h5'' \<noteq> ''edges.h5''
      \<and> copy_edge_attributes 3 example_edges_h5
        (case map_of example_fs_written ''out/e.h5'' of None \<Rightarrow> None | Some f \<Rightarrow> f)
        ''default'' ''default'' ''default'' ''external_default'' [(5, 0)] [(1, 0)] None = (?h1, None)
      \<and> get_node_counts ?h1 ''external_default'' = Inr (0, 0, 0)"
    by code_simp
  have sub2: "map_of example_fs ''edges.h5'' = Some example_edges_h5
      \<and> ''out/e.h5'' \<noteq> ''edges.h5''
      \<and> copy_edge_attributes 3 example_edges_h5
        (case map_of example_fs ''out/e.h5'' of None \<Rightarrow> None | Some f \<Rightarrow> f)
        ''default'' ''default'' ''default'' ''default'' [(0, 0)] [(1, 0)] None = (?h2, None)
      \<and> get_node_counts ?h2 ''default'' = Inr (2, 1, 1)"
    by code_simp
  have e0: "AList.delete ''default'' (the ?h0) = []" by code_simp
  have e1: "AList.delete ''external_default'' (the ?h1) \<noteq> []" by code_simp
  from empty_edge_outputs_removed [THEN conjunct2, rule_format, OF sub0]
  obtain ps0 where ps0: "?h0 = Some ps0"
    and c0: "0 = (0 :: nat) \<and> AList.delete ''default'' ps0 = [] \<longrightarrow>
       (\<exists>fs'. write_subcircuit_edges 3 ''out/e.h5'' ''edges.h5'' ''default'' ''default''
              ''default'' ''default'' [(5, 0)] [(1, 0)] example_fs
                = (fs', Inr DELETED_EMPTY_EDGES_FILE)
        \<and> map_of fs' ''out/e.h5'' = None)"
    by blast
  from ps0 e0 have "AList.delete ''default'' ps0 = []" by simp
  with c0 have c: "\<exists>fs'. write_subcircuit_edges 3 ''out/e.h5'' ''edges.h5'' ''default'' ''default''
              ''default'' ''default'' [(5, 0)] [(1, 0)] example_fs
                = (fs', Inr DELETED_EMPTY_EDGES_FILE)
        \<and> map_of fs' ''out/e.h5'' = None" by blast
  from empty_edge_outputs_removed [THEN conjunct2, rule_format, OF sub1]
  obtain ps1 where ps1: "?h1 = Some ps1"
    and d0: "0 = (0 :: nat) \<and> AList.delete ''external_default'' ps1 \<noteq> [] \<longrightarrow>
       (\<exists>fs' ps'. write_subcircuit_edges 3 ''out/e.h5'' ''edges.h5'' ''default'' ''default''
              ''default'' ''external_default'' [(5, 0)] [(1, 0)] example_fs_written
                = (fs', Inr ''out/e.h5'')
        \<and> map_of fs' ''out/e.h5'' = Some (Some ps') \<and> ps' \<noteq> []
        \<and> map_of ps' ''external_default'' = None)"
    by blast
  from ps1 e1 have "AList.delete ''external_default'' ps1 \<noteq> []" by simp
  with d0 have d: "\<exists>fs' ps'. write_subcircuit_edges 3 ''out/e.h5'' ''edges.h5'' ''default''
              ''default'' ''default'' ''external_default'' [(5, 0)] [(1, 0)] example_fs_written
                = (fs', Inr ''out/e.h5'')
        \<and> map_of fs' ''out/e.h5'' = Some (Some ps') \<and> ps' \<noteq> []
        \<and> map_of ps' ''external_default'' = None" by blast
  from empty_edge_outputs_removed [THEN conjunct2, rule_format, OF sub2]
  have e: "\<exists>fs' ps' p. write_subcircuit_edges 3 ''out/e.h5'' ''edges.h5'' ''default'' ''default''
              ''default'' ''default'' [(0, 0)] [(1, 0)] example_fs
                = (fs', Inr ''out/e.h5'')
        \<and> map_of fs' ''out/e.h5'' = Some (Some ps')
        \<and> map_of ps' ''default'' = Some p
        \<and> indices p = Some (1, 1)"
    using p2 by blast
  show ?thesis
    by (intro conjI) (rule a b c d e)+
qed

subsection \<open>The count of the written edges\<close>

lemma write_edges_pair_count:
  fixes fs :: "'v filesystem"
  assumes "write_edges_pair env output edges_path h5in id_mapping chunk (fs, written) pair
             = ((fs', written'), None)"
  shows "written' = written + int (copied_edge_count env h5in id_mapping chunk pair)"
proof -
  obtain src dst where pair: "pair = (src, dst)" by (cases pair)
  let ?name = "get_population_name src dst"
  from assms obtain populations src_edge_name src_mapping dst_mapping h edge_count sg tg where
    inp: "h5in = Some populations" "get_unique_population populations = Inr src_edge_name"
      "map_of id_mapping src = Some src_mapping" "map_of id_mapping dst = Some dst_mapping"
    and copy: "copy_edge_attributes env h5in None src dst src_edge_name ?name
        src_mapping dst_mapping chunk = (h, None)"
    and counts: "get_node_counts h ?name = Inr (edge_count, sg, tg)"
    unfolding write_edges_pair_def pair Let_def fst_conv snd_conv
    by (auto split: if_splits option.splits sum.splits prod.splits)
  from counts obtain ps p where h: "h = Some ps" "map_of ps ?name = Some p"
    "edge_count = length (source_node_id p)"
    by (rule get_node_counts_Inr)
  have cnt: "copied_edge_count env h5in id_mapping chunk pair = edge_count"
    by (simp add: copied_edge_count_def pair inp copy [unfolded inp(1)] h)
  have fl: "path_join output (get_edge_file_name ?name) \<noteq> edges_path"
    using assms unfolding write_edges_pair_def pair Let_def fst_conv snd_conv
    by (auto split: if_splits)
  note r = write_edges_pair_result [OF refl fl inp copy counts, of fs written]
  show ?thesis
  proof (cases "edge_count = 0")
    case True
    with r assms show ?thesis by (simp add: pair cnt [unfolded pair])
  next
    case False
    then have "0 < edge_count" by simp
    with r assms show ?thesis by (auto simp: pair cnt [unfolded pair])
  qed
qed

lemma write_edges_loop_count:
  fixes fs :: "'v filesystem"
  shows "for_each (write_edges_pair env output edges_path h5in id_mapping chunk) (fs, written) pairs
           = ((fs', written'), None)
     \<Longrightarrow> written' = written
           + (\<Sum>pair\<leftarrow>pairs. int (copied_edge_count env h5in id_mapping chunk pair))"
proof (induction pairs arbitrary: fs written)
  case Nil
  then show ?case by simp
next
  case (Cons pair pairs)
  from Cons.prems obtain fs1 w1 where
    st: "write_edges_pair env output edges_path h5in id_mapping chunk (fs, written) pair
          = ((fs1, w1), None)"
    and rest: "for_each (write_edges_pair env output edges_path h5in id_mapping chunk) (fs1, w1) pairs
          = ((fs', written'), None)"
    by (auto split: prod.splits option.splits)
  from write_edges_pair_count [OF st] Cons.IH [OF rest] show ?case by simp
qed

lemma for_each_error:
  assumes "\<And>s x. snd (body s x) \<noteq> Some e"
  shows "snd (for_each body s xs) \<noteq> Some e"
proof (induction xs arbitrary: s)
  case Nil
  then show ?case by simp
next
  case (Cons x xs)
  obtain s' r where b: "body s x = (s', r)" by (cases "body s x")
  show ?case
  proof (cases r)
    case None
    then show ?thesis using Cons.IH by (simp add: b)
  next
    case (Some e')
    with assms [of s x] b show ?thesis by simp
  qed
qed

lemma isin_error: "isin h xs ys invert = Inl e \<Longrightarrow> e = ValueError"
  by (auto simp: isin_def Let_def create_chunked_slices_def py_range_def np_concatenate_def
      split: if_splits sum.splits)

lemma np_and_error: "np_and a b = Inl e \<Longrightarrow> e = ValueError"
  by (auto simp: np_and_def split: if_splits)

lemma np_mask_error: "np_mask xs bm = Inl e \<Longrightarrow> e = IndexError"
  by (auto simp: np_mask_def split: if_splits)

lemma df_loc_error: "df_loc m ks = Inl e \<Longrightarrow> e = KeyError"
  by (auto simp: df_loc_def split: if_splits)

lemma create_appendable_dataset_no_runtime:
  "snd (create_appendable_dataset grp name dt) \<noteq> Some RuntimeError"
  by (simp add: create_appendable_dataset_def)

lemma append_to_dataset_no_runtime:
  "snd (append_to_dataset grp name vs) \<noteq> Some RuntimeError"
  by (simp add: append_to_dataset_def split: option.splits h5obj.splits)

lemma init_edge_group_no_runtime:
  "snd (init_edge_group orig_group new_group) \<noteq> Some RuntimeError"
proof -
  have inner: "snd (for_each init_dynamics_param sub children) \<noteq> Some RuntimeError"
    for sub :: "'a h5group" and children
    by (rule for_each_error)
      (simp add: init_dynamics_param_def create_appendable_dataset_no_runtime split: h5obj.splits)
  have "snd (init_edge_group_item g item) \<noteq> Some RuntimeError" for g :: "'a h5group" and item
  proof (cases "snd item")
    case (Dataset dt d)
    then show ?thesis
      by (simp add: init_edge_group_item_def create_appendable_dataset_no_runtime)
  next
    case (Group children)
    obtain sub err where fe: "for_each init_dynamics_param [] children = (sub, err)"
      by (cases "for_each init_dynamics_param ([] :: 'a h5group) children")
    with inner [of "[]" children] have "err \<noteq> Some RuntimeError" by simp
    then show ?thesis
      by (simp add: init_edge_group_item_def Group create_group_def fe)
  qed
  then show ?thesis
    unfolding init_edge_group_def by (rule for_each_error)
qed

lemma append_to_dataset_result:
  "append_to_dataset grp name vs = (g, Some e) \<Longrightarrow> e \<noteq> RuntimeError"
  using append_to_dataset_no_runtime [of grp name vs] by auto

lemma populate_dynamics_param_no_runtime:
  "snd (populate_dynamics_param name sl bm g item) \<noteq> Some RuntimeError"
  by (auto simp: populate_dynamics_param_def
      split: h5obj.splits option.splits sum.splits prod.splits
      dest: np_mask_error append_to_dataset_result)

lemma populate_edge_group_no_runtime:
  "snd (populate_edge_group orig_group new_group sl bm) \<noteq> Some RuntimeError"
proof -
  have "snd (populate_edge_group_item sl bm g item) \<noteq> Some RuntimeError"
    for g :: "'a h5group" and item
  proof (cases "snd item")
    case (Dataset dt d)
    then show ?thesis
      by (auto simp: populate_edge_group_item_def append_to_dataset_no_runtime
          split: sum.splits dest: np_mask_error)
  next
    case (Group children)
    have "snd (for_each (populate_dynamics_param name sl bm) g children) \<noteq> Some RuntimeError"
      for name
      by (rule for_each_error) (rule populate_dynamics_param_no_runtime)
    then show ?thesis
      by (simp add: populate_edge_group_item_def Group)
  qed
  then show ?thesis
    unfolding populate_edge_group_def by (rule for_each_error)
qed

lemma finalize_edges_no_runtime: "snd (finalize_edges p) \<noteq> Some RuntimeError"
  by (simp add: finalize_edges_def Let_def)

lemma copy_chunk_no_runtime:
  "snd (copy_chunk env oe og sm dm s sl) \<noteq> Some RuntimeError"
proof -
  have p: "populate_edge_group og g sl bm = (g', Some e) \<Longrightarrow> e \<noteq> RuntimeError"
    for g g' :: "'a h5group" and bm e
    using populate_edge_group_no_runtime [of og g sl bm] by auto
  show ?thesis
    by (auto simp: copy_chunk_def Let_def split: sum.splits prod.splits
        dest: isin_error np_and_error np_mask_error df_loc_error p)
qed

lemma copy_rows_no_runtime:
  "snd (copy_rows env chunk oe og sm dm ne) \<noteq> Some RuntimeError"
proof -
  have i: "init_edge_group og [] = (g, Some e) \<Longrightarrow> e \<noteq> RuntimeError"
    for g :: "'a h5group" and e
    using init_edge_group_no_runtime [of og "[]"] by auto
  have l: "for_each (copy_chunk env oe og sm dm) s slices = (s', Some e) \<Longrightarrow> e \<noteq> RuntimeError"
    for s s' slices e
    using for_each_error [of "copy_chunk env oe og sm dm" RuntimeError s slices,
        OF copy_chunk_no_runtime] by auto
  have f: "finalize_edges p = (p', Some e) \<Longrightarrow> e \<noteq> RuntimeError"
    for p p' :: "'a edge_population" and e
    using finalize_edges_no_runtime [of p] by auto
  have c: "create_chunked_slices n k = Inl e \<Longrightarrow> e \<noteq> RuntimeError" for n k e
    by (auto simp: create_chunked_slices_def py_range_def split: if_splits)
  show ?thesis
    by (auto simp: copy_rows_def split: prod.splits option.splits sum.splits if_splits
        dest: i l f c)
qed

lemma copy_edge_attributes_no_runtime:
  "snd (copy_edge_attributes env h5in h5out sn dn se de sm dm chunk) \<noteq> Some RuntimeError"
proof -
  have r: "copy_rows env c oe og sm dm ne = (s, Some e) \<Longrightarrow> e \<noteq> RuntimeError"
    for c oe og s e and ne :: "'a edge_population"
    using copy_rows_no_runtime [of env c oe og sm dm ne] by auto
  show ?thesis
    by (auto simp: copy_edge_attributes_def get_unique_group_def Let_def
        split: option.splits sum.splits prod.splits dest: r)
qed

lemma write_edges_pair_no_runtime:
  "snd (write_edges_pair env output edges_path h5in id_mapping chunk state pair)
     \<noteq> Some RuntimeError"
proof -
  have c: "copy_edge_attributes env hin h5out sn dn se de sm dm chunk = (h, Some e)
      \<Longrightarrow> e \<noteq> RuntimeError" for hin h5out h :: "'a h5file" and sn dn se de sm dm e
    using copy_edge_attributes_no_runtime [of env hin h5out sn dn se de sm dm chunk] by auto
  have g: "get_node_counts h n = Inl e \<Longrightarrow> e \<noteq> RuntimeError" for h :: "'a h5file" and n e
    by (auto simp: get_node_counts_def Let_def split: option.splits if_splits)
  have u: "get_unique_population ps = Inl e \<Longrightarrow> e \<noteq> RuntimeError"
    for ps :: "(string \<times> 'a edge_population) list" and e
    by (auto simp: get_unique_population_def Let_def split: if_splits)
  have w: "write_indexes fs f n a b = (fs', Some e) \<Longrightarrow> e \<noteq> RuntimeError"
    for fs fs' :: "'a filesystem" and f n a b e
    by (auto simp: write_indexes_def split: option.splits)
  show ?thesis
    unfolding write_edges_pair_def Let_def
    by (auto split: if_splits option.splits sum.splits prod.splits dest: c g u w)
qed

lemma write_edges_subset_no_runtime:
  "snd (write_edges env output edges_path id_mapping chunk False fs) \<noteq> Some RuntimeError"
proof (cases "map_of fs edges_path")
  case None
  then show ?thesis by (simp add: write_edges_def)
next
  case (Some h5in)
  let ?loop = "for_each (write_edges_pair env output edges_path h5in id_mapping chunk) (fs, 0)
      (List.product (map fst id_mapping) (map fst id_mapping))"
  have "snd ?loop \<noteq> Some RuntimeError"
    by (rule for_each_error) (rule write_edges_pair_no_runtime)
  then show ?thesis
    by (cases ?loop) (auto simp: write_edges_def Some split: option.splits)
qed

text \<open>
  Claim C3.  Without \<open>expect_to_use_all_edges\<close>, \<open>_write_edges\<close> never raises the
  RuntimeError of the count check.  When the loop over the pairs of populations ends
  without an exception, the count of written edges is the sum, over all ordered pairs, of
  the edge counts of the populations written; without \<open>expect_to_use_all_edges\<close> the
  function then returns normally, whatever the count, and with it, on an input file with
  one population, it raises RuntimeError when the sum differs from the edge count of
  that population and returns normally when they agree.  In both cases the file system is
  the one the loop has left: the check comes after all pairs.
\<close>

theorem write_edges_count_check:
  fixes fs :: "'v filesystem"
  shows "snd (write_edges env output edges_path id_mapping chunk False fs) \<noteq> Some RuntimeError
       \<and> (map_of fs edges_path = Some h5in
          \<and> for_each (write_edges_pair env output edges_path h5in id_mapping chunk) (fs, 0)
                (List.product (map fst id_mapping) (map fst id_mapping))
              = ((fs', written), None) \<longrightarrow>
            written = (\<Sum>pair\<leftarrow>List.product (map fst id_mapping) (map fst id_mapping).
                          int (copied_edge_count env h5in id_mapping chunk pair))
          \<and> write_edges env output edges_path id_mapping chunk False fs = (fs', None)
          \<and> (\<forall>name orig_edges. h5in = Some [(name, orig_edges)] \<longrightarrow>
                (written \<noteq> int (length (source_node_id orig_edges)) \<longrightarrow>
                   write_edges env output edges_path id_mapping chunk True fs
                     = (fs', Some RuntimeError))
              \<and> (written = int (length (source_node_id orig_edges)) \<longrightarrow>
                   write_edges env output edges_path id_mapping chunk True fs = (fs', None))))"
proof (intro conjI impI allI; (elim conjE)?)
  show "snd (write_edges env output edges_path id_mapping chunk False fs) \<noteq> Some RuntimeError"
    by (rule write_edges_subset_no_runtime)
next
  assume inp: "map_of fs edges_path = Some h5in"
    and loop: "for_each (write_edges_pair env output edges_path h5in id_mapping chunk) (fs, 0)
                (List.product (map fst id_mapping) (map fst id_mapping))
              = ((fs', written), None)"
  show "written = (\<Sum>pair\<leftarrow>List.product (map fst id_mapping) (map fst id_mapping).
                          int (copied_edge_count env h5in id_mapping chunk pair))"
    using write_edges_loop_count [OF loop] by simp
  show "write_edges env output edges_path id_mapping chunk False fs = (fs', None)"
    by (simp add: write_edges_def inp loop)
  fix name and orig_edges :: "'v edge_population"
  assume one: "h5in = Some [(name, orig_edges)]"
  have check: "check_all_edges_used h5in written =
      (if int (length (source_node_id orig_edges)) \<noteq> written then Some RuntimeError else None)"
    by (simp add: check_all_edges_used_def one get_unique_population_def)
  {
    assume "written \<noteq> int (length (source_node_id orig_edges))"
    with check have "check_all_edges_used h5in written = Some RuntimeError" by auto
    then show "write_edges env output edges_path id_mapping chunk True fs
        = (fs', Some RuntimeError)"
      by (simp only: write_edges_def inp loop option.case prod.case fst_conv snd_conv if_True)
  }
  {
    assume "written = int (length (source_node_id orig_edges))"
    with check have "check_all_edges_used h5in written = None" by simp
    then show "write_edges env output edges_path id_mapping chunk True fs = (fs', None)"
      by (simp only: write_edges_def inp loop option.case prod.case fst_conv snd_conv if_True)
  }
qed

theorem write_edges_count_check_witness:
  "(\<exists>fs'. write_edges 500 ''out'' ''edges.h5'' [(''A'', [(0, 0), (1, 1)])] (Some 3) True example_fs
            = (fs', Some RuntimeError)
        \<and> write_edges 500 ''out'' ''edges.h5'' [(''A'', [(0, 0), (1, 1)])] (Some 3) False example_fs
            = (fs', None)
        \<and> map_of fs' ''out/edges_A.h5'' \<noteq> None)
   \<and> (\<Sum>pair\<leftarrow>List.product
               (map fst ([(''A'', [(0, 0), (1, 1)])] :: (string \<times> id_mapping) list))
               (map fst ([(''A'', [(0, 0), (1, 1)])] :: (string \<times> id_mapping) list)).
         int (copied_edge_count 500 example_edges_h5 [(''A'', [(0, 0), (1, 1)])] (Some 3) pair)) = 2
   \<and> (\<exists>fs'. write_edges 500 ''out'' ''edges.h5'' example_edge_id_mapping (Some 3) True example_fs
            = (fs', None))
   \<and> (\<Sum>pair\<leftarrow>List.product (map fst example_edge_id_mapping) (map fst example_edge_id_mapping).
         int (copied_edge_count 500 example_edges_h5 example_edge_id_mapping (Some 3) pair)) = 4"
proof -
  let ?im = "[(''A'', [(0, 0), (1, 1)])] :: (string \<times> id_mapping) list"
  let ?loop1 = "for_each (write_edges_pair 500 ''out'' ''edges.h5'' example_edges_h5 ?im (Some 3))
      (example_fs, 0) (List.product (map fst ?im) (map fst ?im))"
  let ?loop2 = "for_each (write_edges_pair 500 ''out'' ''edges.h5'' example_edges_h5
      example_edge_id_mapping (Some 3))
      (example_fs, 0) (List.product (map fst example_edge_id_mapping)
         (map fst example_edge_id_mapping))"
  have h1: "map_of example_fs ''edges.h5'' = Some example_edges_h5
      \<and> ?loop1 = ((fst (fst ?loop1), 2), None)"
    by code_simp
  have h2: "map_of example_fs ''edges.h5'' = Some example_edges_h5
      \<and> ?loop2 = ((fst (fst ?loop2), 4), None)"
    by code_simp
  have one: "example_edges_h5 = Some [(''default'', snd (hd (the example_edges_h5)))]"
    by code_simp
  have n: "(2 :: int) \<noteq> int (length (source_node_id (snd (hd (the example_edges_h5)))))"
    by code_simp
  have e: "(4 :: int) = int (length (source_node_id (snd (hd (the example_edges_h5)))))"
    by code_simp
  have kept: "map_of (fst (fst ?loop1)) ''out/edges_A.h5'' \<noteq> None"
    by code_simp
  note t1 = write_edges_count_check [THEN conjunct2, rule_format, OF h1]
  note t2 = write_edges_count_check [THEN conjunct2, rule_format, OF h2]
  note r1 = t1 [THEN conjunct2, THEN conjunct2, rule_format, OF one, THEN conjunct1,
      rule_format, OF n]
  note s1 = t1 [THEN conjunct2, THEN conjunct1]
  note r2 = t2 [THEN conjunct2, THEN conjunct2, rule_format, OF one, THEN conjunct2,
      rule_format, OF e]
  have a: "\<exists>fs'. write_edges 500 ''out'' ''edges.h5'' ?im (Some 3) True example_fs
            = (fs', Some RuntimeError)
        \<and> write_edges 500 ''out'' ''edges.h5'' ?im (Some 3) False example_fs = (fs', None)
        \<and> map_of fs' ''out/edges_A.h5'' \<noteq> None"
    using r1 s1 kept by blast
  have b: "\<exists>fs'. write_edges 500 ''out'' ''edges.h5'' example_edge_id_mapping (Some 3) True
      example_fs = (fs', None)"
    using r2 by blast
  show ?thesis
    by (intro conjI) (rule a t1 [THEN conjunct1, symmetric] b t2 [THEN conjunct1, symmetric])+
qed

end
